theory Spec2Isabelle
  imports Main "HOL-Library.Sublist"
begin

section \<open>Values, requests and method definitions\<close>

text \<open>
  A shallow embedding of \<^verbatim>\<open>packages/xrpc-server/src/server.ts\<close>: the class
  \<^verbatim>\<open>Server\<close> (method registration, the catch-all, the route handler built by
  \<^verbatim>\<open>createHandler\<close>, the subscription generator built by
  \<^verbatim>\<open>addSubscription\<close>, \<^verbatim>\<open>setupRouteRateLimits\<close>) and the module-level
  middlewares. Asynchronous functions are modelled by their sequential effect: every
  \<^verbatim>\<open>await\<close> of the file is followed by the code after it, and the only state shared between
  requests is the server object and the rate-limit counter store, both passed explicitly.
\<close>

type_synonym nsid = string

text \<open>Structured values as handlers produce them (the JSON-like data of the lexicon).\<close>

datatype jvalue =
  JNull
| JBool bool
| JNum int
| JStr string
| JArr "jvalue list"
| JObj "(string \<times> jvalue) list"

text \<open>\<^verbatim>\<open>def.type\<close> of a lexicon definition, as \<^verbatim>\<open>addMethod\<close>, \<^verbatim>\<open>addStreamMethod\<close> and
  \<^verbatim>\<open>catchall\<close> read it; the rest of the definition is opaque to the server.\<close>

datatype def_type = Query | Procedure | Subscription

record lex_def =
  lex_type :: def_type
  lex_schema :: string

text \<open>The parts of an Express request the server reads: \<^verbatim>\<open>req.method\<close>,
  \<^verbatim>\<open>req.params.methodId\<close> (the segment after \<^verbatim>\<open>/xrpc/\<close>), the query string, the network
  origin and the raw body.\<close>

record request =
  req_method :: string
  req_methodId :: string
  req_query :: "(string \<times> string) list"
  req_ip :: string
  req_body :: string

type_synonym params = "(string \<times> jvalue) list"
type_synonym auth = string
type_synonym input = string

section \<open>Errors and their normalisation\<close>

text \<open>
  Modelled from the spec: the error classes and \<^verbatim>\<open>XRPCError.fromError\<close>,
  \<^verbatim>\<open>XRPCError.fromHandlerError\<close>, \<^verbatim>\<open>XRPCError.payload\<close> and \<^verbatim>\<open>isHandlerError\<close> of
  \<^verbatim>\<open>./types\<close>, which server.ts imports. Section 4.5 of the specification: any failure is
  mapped to one wire error with a status classification, a machine-readable error name and a
  human message; unknown and falsy failures are coerced to InternalServerError; section 7: an
  InternalServerError never exposes internal detail beyond a generic message. A status outside
  the named classes has no name of its own (server.ts falls back to \<^verbatim>\<open>'Unknown'\<close> for it).
\<close>

datatype response_type =
  InvalidRequest
| AuthRequired
| Forbidden
| RateLimitExceeded
| InternalServerError
| MethodNotImplemented
| OtherStatus nat

fun typeName :: "response_type \<Rightarrow> string option" where
  "typeName InvalidRequest = Some ''InvalidRequest''"
| "typeName AuthRequired = Some ''AuthenticationRequired''"
| "typeName Forbidden = Some ''Forbidden''"
| "typeName RateLimitExceeded = Some ''RateLimitExceeded''"
| "typeName InternalServerError = Some ''InternalServerError''"
| "typeName MethodNotImplemented = Some ''MethodNotImplemented''"
| "typeName (OtherStatus n) = None"

fun typeStr :: "response_type \<Rightarrow> string option" where
  "typeStr InvalidRequest = Some ''Invalid Request''"
| "typeStr AuthRequired = Some ''Authentication Required''"
| "typeStr Forbidden = Some ''Forbidden''"
| "typeStr RateLimitExceeded = Some ''Rate Limit Exceeded''"
| "typeStr InternalServerError = Some ''Internal Server Error''"
| "typeStr MethodNotImplemented = Some ''Method Not Implemented''"
| "typeStr (OtherStatus n) = None"

text \<open>\<^verbatim>\<open>XRPCError\<close>: its classification, its message and its custom error name.\<close>

datatype xrpc_error =
  XRPCError (xe_type: response_type) (xe_errorMessage: "string option")
    (xe_customErrorName: "string option")

text \<open>\<^verbatim>\<open>HandlerError\<close>: the declared-error value a handler or a verifier may return.\<close>

datatype handler_error =
  HandlerError (he_status: response_type) (he_error: "string option")
    (he_message: "string option")

text \<open>What a \<^verbatim>\<open>throw\<close> can carry: an \<^verbatim>\<open>XRPCError\<close>, a value of the declared-error
  shape, any other value, or a falsy value (\<^verbatim>\<open>null\<close>, \<^verbatim>\<open>undefined\<close>, \<^verbatim>\<open>0\<close>).\<close>

datatype thrown =
  ThrownXRPC xrpc_error
| ThrownHandlerError handler_error
| ThrownOther string
| ThrownFalsy

definition InvalidRequestError :: "string \<Rightarrow> xrpc_error" where
  "InvalidRequestError msg = XRPCError InvalidRequest (Some msg) None"

definition MethodNotImplementedError :: xrpc_error where
  "MethodNotImplementedError = XRPCError MethodNotImplemented None None"

definition InternalServerErrorOf :: "string option \<Rightarrow> xrpc_error" where
  "InternalServerErrorOf msg = XRPCError InternalServerError msg None"

definition fromHandlerError :: "handler_error \<Rightarrow> xrpc_error" where
  "fromHandlerError he = XRPCError (he_status he) (he_message he) (he_error he)"

fun fromError :: "thrown \<Rightarrow> xrpc_error" where
  "fromError (ThrownXRPC x) = x"
| "fromError (ThrownHandlerError he) = fromHandlerError he"
| "fromError (ThrownOther m) = InternalServerErrorOf None"
| "fromError ThrownFalsy = InternalServerErrorOf None"

text \<open>The JSON body of a wire error, \<^verbatim>\<open>{error, message}\<close>.\<close>

datatype error_payload =
  ErrorPayload (pl_error: "string option") (pl_message: "string option")

definition payload :: "xrpc_error \<Rightarrow> error_payload" where
  "payload x =
     ErrorPayload
       (case xe_customErrorName x of Some n \<Rightarrow> Some n | None \<Rightarrow> typeName (xe_type x))
       (if xe_type x = InternalServerError then typeStr (xe_type x)
        else (case xe_errorMessage x of
                Some m \<Rightarrow> (if m = [] then typeStr (xe_type x) else Some m)
              | None \<Rightarrow> typeStr (xe_type x)))"

section \<open>External collaborators\<close>

text \<open>
  The schema functions server.ts calls and does not define: \<^verbatim>\<open>decodeQueryParams\<close>,
  \<^verbatim>\<open>validateInput\<close> (of \<^verbatim>\<open>./util\<close>), \<^verbatim>\<open>Lexicons.assertValidXrpcParams\<close> and the body
  parsers \<^verbatim>\<open>express.json\<close>, \<^verbatim>\<open>express.text\<close>. They are parameters of the model. A
  function that throws returns \<open>Inl\<close>; for \<^verbatim>\<open>assertValidXrpcParams\<close> the \<open>Inl\<close> carries
  \<^verbatim>\<open>String(e)\<close> of what it threw. \<open>outputViolation\<close> is the check of a handler's output
  against the output schema: \<open>Some\<close> the validator's message on a mismatch.
\<close>

text \<open>A \<^verbatim>\<open>Readable\<close>: the bytes it delivers, and the error it ends with, if any.\<close>

datatype readable = Readable string "thrown option"

text \<open>The body of a handler's success: a structured value, a buffer (\<^verbatim>\<open>Buffer\<close> or
  \<^verbatim>\<open>Uint8Array\<close>) or a stream.\<close>

datatype body = BodyValue jvalue | BodyBuffer string | BodyStream readable

type_synonym headers = "(string \<times> string option) list"

datatype handler_success =
  HandlerSuccess (hs_encoding: string) (hs_body: body) (hs_headers: headers)

record env =
  decodeQueryParams :: "lex_def \<Rightarrow> (string \<times> string) list \<Rightarrow> params"
  assertValidXrpcParams :: "nsid \<Rightarrow> params \<Rightarrow> string + params"
  validateInput :: "nsid \<Rightarrow> lex_def \<Rightarrow> request \<Rightarrow> thrown + input option"
  outputViolation :: "nsid \<Rightarrow> lex_def \<Rightarrow> handler_success option \<Rightarrow> string option"
  parseBody :: "request \<Rightarrow> thrown option"

text \<open>An auth verifier returns credentials, returns a declared error, or throws.\<close>

datatype auth_outcome =
  Verified auth
| VerifierError handler_error
| VerifierThrows thrown

type_synonym auth_verifier = "request \<Rightarrow> auth_outcome"

section \<open>Subscriptions: the frame generator of addSubscription\<close>

text \<open>\<^verbatim>\<open>Frame\<close> and its two subclasses: a message frame (body and optional type tag) and an
  error frame (error code and optional message).\<close>

datatype frame =
  MessageFrame jvalue "string option"
| ErrorFrame string "string option"

text \<open>An item a subscription handler yields: an instance of \<^verbatim>\<open>Frame\<close> or any other value.\<close>

datatype item = FrameItem frame | ValueItem jvalue

text \<open>
  The handler's asynchronous iterable, observed until it is exhausted or throws: the items it
  yields, then how it stops. (A sequence that never stops yields frames for ever and raises
  nothing; cancellation by the \<^verbatim>\<open>signal\<close> is the consumer no longer asking for frames.)
\<close>

datatype stream_end = StreamEnds | StreamRaises thrown

record stream_ctx =
  sx_req :: request
  sx_params :: params
  sx_auth :: "auth option"

record stream_config =
  sc_auth :: "auth_verifier option"
  sc_handler :: "stream_ctx \<Rightarrow> item list \<times> stream_end"

text \<open>JavaScript's \<^verbatim>\<open>String.prototype.split\<close> with a one-character separator.\<close>

fun split_on :: "char \<Rightarrow> string \<Rightarrow> string list" where
  "split_on sep [] = [[]]"
| "split_on sep (c # cs) =
     (if c = sep then [] # split_on sep cs
      else (case split_on sep cs of
              [] \<Rightarrow> [[c]]
            | p # ps \<Rightarrow> (c # p) # ps))"

text \<open>The body of the \<^verbatim>\<open>for await\<close> loop (lines 397 to 418): the frame yielded for one item.
  \<^verbatim>\<open>check.is(item, schema.map)\<close> holds of the plain objects, here \<open>JObj\<close>.\<close>

definition item_frame :: "nsid \<Rightarrow> item \<Rightarrow> frame" where
  "item_frame nsid it =
     (case it of
        FrameItem f \<Rightarrow> f
      | ValueItem v \<Rightarrow>
          (case v of
             JObj kvs \<Rightarrow>
               (case map_of kvs ''$type'' of
                  Some (JStr ty) \<Rightarrow>
                    (let split = split_on CHR ''#'' ty;
                         t = (if length split = 2 \<and> (split ! 0 = [] \<or> split ! 0 = nsid)
                              then CHR ''#'' # split ! 1 else ty)
                     in MessageFrame (JObj (filter (\<lambda>(k, _). k \<noteq> ''$type'') kvs)) (Some t))
                | _ \<Rightarrow> MessageFrame v None)
           | _ \<Rightarrow> MessageFrame v None))"

text \<open>The \<^verbatim>\<open>catch\<close> block (lines 420 to 426): the error frame for what was thrown.\<close>

definition error_frame :: "thrown \<Rightarrow> frame" where
  "error_frame err =
     (let xrpcErrPayload = payload (fromError err)
      in ErrorFrame (case pl_error xrpcErrPayload of None \<Rightarrow> ''Unknown'' | Some e \<Rightarrow> e)
           (pl_message xrpcErrPayload))"

text \<open>The \<^verbatim>\<open>try\<close> block (lines 381 to 419): the frames it yields and what it throws, if
  anything. Authentication, then parameter decoding and validation, then the stream.\<close>

definition stream_try ::
  "env \<Rightarrow> nsid \<Rightarrow> lex_def \<Rightarrow> stream_config \<Rightarrow> request \<Rightarrow> frame list \<times> thrown option" where
  "stream_try e nsid def config req =
     (case (case sc_auth config of
              None \<Rightarrow> Inr None
            | Some verifier \<Rightarrow>
                (case verifier req of
                   VerifierThrows err \<Rightarrow> Inl err
                 | VerifierError he \<Rightarrow> Inl (ThrownXRPC (fromHandlerError he))
                 | Verified a \<Rightarrow> Inr (Some a))) of
        Inl err \<Rightarrow> ([], Some err)
      | Inr au \<Rightarrow>
          (case assertValidXrpcParams e nsid (decodeQueryParams e def (req_query req)) of
             Inl msg \<Rightarrow> ([], Some (ThrownXRPC (InvalidRequestError msg)))
           | Inr ps \<Rightarrow>
               (case sc_handler config \<lparr>sx_req = req, sx_params = ps, sx_auth = au\<rparr> of
                  (items, fin) \<Rightarrow>
                    (map (item_frame nsid) items,
                     case fin of StreamEnds \<Rightarrow> None | StreamRaises err \<Rightarrow> Some err))))"

text \<open>The generator handed to \<^verbatim>\<open>XrpcStreamServer\<close> (lines 380 to 427): every frame it
  yields, in order, until it returns.\<close>

definition stream_frames ::
  "env \<Rightarrow> nsid \<Rightarrow> lex_def \<Rightarrow> stream_config \<Rightarrow> request \<Rightarrow> frame list" where
  "stream_frames e nsid def config req =
     (case stream_try e nsid def config req of
        (yielded, None) \<Rightarrow> yielded
      | (yielded, Some err) \<Rightarrow> yielded @ [error_frame err])"




section \<open>Vocabulary for the subscription claims\<close>

text \<open>The \<^verbatim>\<open>$type\<close> an item declares: \<^verbatim>\<open>item?.['$type']\<close> when the item is a map and the
  field is a string (the negation of the test of line 402).\<close>

definition declared_type :: "jvalue \<Rightarrow> string option" where
  "declared_type v =
     (case v of
        JObj kvs \<Rightarrow> (case map_of kvs ''$type'' of Some (JStr ty) \<Rightarrow> Some ty | _ \<Rightarrow> None)
      | _ \<Rightarrow> None)"

text \<open>\<^verbatim>\<open>const clone = { ...item }; delete clone['$type']\<close>.\<close>

definition strip_type :: "jvalue \<Rightarrow> jvalue" where
  "strip_type v =
     (case v of JObj kvs \<Rightarrow> JObj (filter (\<lambda>(k, _). k \<noteq> ''$type'') kvs) | _ \<Rightarrow> v)"

definition has_type_field :: "jvalue \<Rightarrow> bool" where
  "has_type_field v = (case v of JObj kvs \<Rightarrow> ''$type'' \<in> fst ` set kvs | _ \<Rightarrow> False)"

text \<open>A type \<open>ty\<close> lies in the namespace of the subscription \<open>nsid\<close> with local name
  \<open>name\<close>: it is \<^verbatim>\<open>#name\<close> or \<^verbatim>\<open>nsid#name\<close>, the name holding no further \<^verbatim>\<open>#\<close>.\<close>

definition in_namespace :: "nsid \<Rightarrow> string \<Rightarrow> string \<Rightarrow> bool" where
  "in_namespace nsid ty name =
     (CHR ''#'' \<notin> set name \<and> (ty = CHR ''#'' # name \<or> ty = nsid @ CHR ''#'' # name))"

section \<open>Rate limiters\<close>

text \<open>\<^verbatim>\<open>XRPCReqContext\<close>, without the back-references to the response.\<close>

record ctx =
  ctx_req :: request
  ctx_auth :: "auth option"
  ctx_params :: params
  ctx_input :: "input option"

type_synonym calc_key = "ctx \<Rightarrow> string"
type_synonym calc_points = "ctx \<Rightarrow> nat"

text \<open>The second argument of \<^verbatim>\<open>RateLimiterI.consume\<close>.\<close>

record consume_opts =
  opt_calcKey :: "calc_key option"
  opt_calcPoints :: "calc_points option"

text \<open>The external counter store: the points consumed so far under each key of the store,
  within the current window (the expiry of a window is not modelled).\<close>

type_synonym store = "string \<Rightarrow> nat"

datatype rl_status = RateLimiterStatus (rs_limit: nat) (rs_remainingPoints: nat)

text \<open>What \<^verbatim>\<open>consume\<close> resolves to: \<^verbatim>\<open>null\<close>, a status, or a
  \<^verbatim>\<open>RateLimitExceededError\<close> (returned, not thrown).\<close>

datatype consumed = NoLimit | Status rl_status | Exceeded rl_status

text \<open>\<^verbatim>\<open>RateLimiterI\<close>: an object with one method, \<^verbatim>\<open>consume(ctx, opts?)\<close>. It is built by
  the \<^verbatim>\<open>creator\<close> of the server's options, so it is a parameter of the model: any function
  of the context, the options and the store, that returns or throws (\<open>Inl\<close>).\<close>

datatype limiter =
  RateLimiter (rl_consume: "ctx \<Rightarrow> consume_opts option \<Rightarrow> store \<Rightarrow> (thrown + consumed) \<times> store")

text \<open>Where a consume function was built: for the \<open>i\<close>-th global limiter, or for the spec at
  index \<open>i\<close> of the \<^verbatim>\<open>rateLimit\<close> of a method. The tag labels the events of a run and
  plays no part in what the function does.\<close>

datatype rl_tag = GlobalLimit nat | RouteLimit nsid nat

text \<open>\<^verbatim>\<open>RateLimiterConsume\<close>: the closures of lines 203, 455, 473 and 495.\<close>

datatype consume_fn =
  ConsumeFn (cf_tag: rl_tag) (cf_run: "ctx \<Rightarrow> store \<Rightarrow> (thrown + consumed) \<times> store")

text \<open>What a request does, in order: the observable steps of the pipeline.\<close>

datatype event =
  EvConsume rl_tag
| EvCustomCatchall
| EvGetDef
| EvVerifyAuth
| EvParseBody
| EvDecodeParams
| EvAssertParams bool
| EvValidateInput bool
| EvHandler
| EvValidateOutput bool

definition RateLimitExceededError :: "rl_status \<Rightarrow> xrpc_error" where
  "RateLimitExceededError status = XRPCError RateLimitExceeded (Some ''Rate Limit Exceeded'') None"

text \<open>
  Modelled from the spec: \<^verbatim>\<open>consumeMany\<close> of \<^verbatim>\<open>./rate-limiter\<close>, which server.ts imports.
  Section 4.3 of the specification: it evaluates every function of the pool sequentially and
  returns the first RateLimitExceeded outcome, or proceeds if all pass; a counter is not
  debited if an earlier one already rejected the request. The result is \<open>Some\<close> the status of
  the rejection, or \<open>None\<close> when every function passed (the callers only test the result for
  \<^verbatim>\<open>instanceof RateLimitExceededError\<close>); a function that throws ends the evaluation.
\<close>

fun consumeMany ::
  "ctx \<Rightarrow> consume_fn list \<Rightarrow> store \<Rightarrow> (thrown + rl_status option) \<times> event list \<times> store" where
  "consumeMany c [] st = (Inr None, [], st)"
| "consumeMany c (fn # fns) st =
     (case cf_run fn c st of
        (Inl err, st') \<Rightarrow> (Inl err, [EvConsume (cf_tag fn)], st')
      | (Inr (Exceeded status), st') \<Rightarrow> (Inr (Some status), [EvConsume (cf_tag fn)], st')
      | (Inr _, st') \<Rightarrow>
          (case consumeMany c fns st' of
             (res, evs, st'') \<Rightarrow> (res, EvConsume (cf_tag fn) # evs, st'')))"

section \<open>Configuration\<close>

text \<open>\<^verbatim>\<open>ServerRateLimitDescription\<close>: a global or shared limiter declared in the options.\<close>

record rate_limit_desc =
  rd_name :: string
  rd_durationMs :: nat
  rd_points :: nat
  rd_calcKey :: "calc_key option"
  rd_calcPoints :: "calc_points option"

text \<open>\<^verbatim>\<open>RateLimiterOpts\<close>: what the server passes to the \<^verbatim>\<open>creator\<close>.\<close>

record creator_opts =
  co_keyPrefix :: string
  co_durationMs :: nat
  co_points :: nat
  co_calcKey :: "calc_key option"
  co_calcPoints :: "calc_points option"

record rate_limits =
  rl_creator :: "creator_opts \<Rightarrow> limiter"
  rl_global :: "rate_limit_desc list option"
  rl_shared :: "rate_limit_desc list option"

text \<open>A reply written to the response: status, content type, headers and body.\<close>

datatype sent_body = SentNothing | SentJson body | SentBody body | SentBytes string

datatype reply =
  Reply (rp_status: nat) (rp_contentType: "string option") (rp_headers: "(string \<times> string) list")
    (rp_body: sent_body)

text \<open>How an Express middleware ends: it has written a reply; it called \<^verbatim>\<open>next(err)\<close>
  (with the flag \<^verbatim>\<open>res.headersSent\<close> at that moment); or it called \<^verbatim>\<open>next()\<close>.\<close>

datatype step = Sent reply | NextError thrown bool | NextOk

text \<open>\<^verbatim>\<open>Options\<close>: \<^verbatim>\<open>validateResponse\<close>, \<^verbatim>\<open>catchall\<close> (a request handler of the
  caller's) and \<^verbatim>\<open>rateLimits\<close>. The payload limits are read by the body parsers and by
  \<^verbatim>\<open>validateInput\<close> only, which are parameters.\<close>

record options =
  validateResponse :: "bool option"
  custom_catchall :: "(request \<Rightarrow> step) option"
  rateLimits :: "rate_limits option"

text \<open>\<^verbatim>\<open>HandlerRateLimitOpts\<close>: a spec is shared when it has a \<^verbatim>\<open>name\<close>
  (\<^verbatim>\<open>isShared\<close>), and else carries its own window and budget.\<close>

datatype rate_limit_spec =
  SharedRateLimitOpts string "calc_key option" "calc_points option"
| RouteRateLimitOpts nat nat "calc_key option" "calc_points option"



text \<open>\<^verbatim>\<open>config.rateLimit\<close>: one spec or an array of specs.\<close>

datatype rate_limit_cfg = OneLimit rate_limit_spec | ManyLimits "rate_limit_spec list"

text \<open>What a handler returns (\<^verbatim>\<open>HandlerOutput\<close>, or nothing), or that it throws.\<close>

datatype handler_output =
  NoOutput
| PipeThroughStream string readable headers
| PipeThroughBuffer string string headers
| OutputError handler_error
| OutputSuccess handler_success

datatype handler_result = Returns handler_output | Throws thrown

type_synonym handler = "ctx \<Rightarrow> handler_result"

text \<open>\<^verbatim>\<open>XRPCHandlerConfig\<close>.\<close>

record handler_config =
  hc_auth :: "auth_verifier option"
  hc_rateLimit :: "rate_limit_cfg option"
  hc_handler :: handler

datatype config_or_fn = Config handler_config | Fn handler

datatype stream_config_or_fn = StreamConfig stream_config | StreamFn "stream_ctx \<Rightarrow> item list \<times> stream_end"

section \<open>The server\<close>

text \<open>The closure \<^verbatim>\<open>createHandler\<close> returns: what it captured when it was built.\<close>

record route_handler =
  rh_nsid :: nsid
  rh_def :: lex_def
  rh_routeCfg :: handler_config
  rh_validateResOutput :: bool
  rh_basicRlFns :: "consume_fn list"
  rh_paramRlFns :: "consume_fn list"

datatype route_verb = RouteGet | RoutePost

text \<open>A route of the Express router \<^verbatim>\<open>this.routes\<close>: its verb, its path
  \<^verbatim>\<open>/xrpc/nsid\<close>, and its middlewares (the auth middleware when the config has a verifier,
  the body parsers for \<^verbatim>\<open>post\<close>, then the handler).\<close>

record route =
  rt_verb :: route_verb
  rt_nsid :: nsid
  rt_auth :: "auth_verifier option"
  rt_handler :: route_handler

text \<open>What \<^verbatim>\<open>this.subscriptions\<close> holds for an id: the generator of
  \<^verbatim>\<open>addSubscription\<close> with what it captured.\<close>

record subscription =
  sub_nsid :: nsid
  sub_def :: lex_def
  sub_config :: stream_config

record server =
  lex :: "nsid \<Rightarrow> lex_def option"
  options :: options
  routes :: "route list"
  subscriptions :: "nsid \<Rightarrow> subscription option"
  globalRateLimiters :: "limiter list"
  sharedRateLimiters :: "string \<Rightarrow> limiter option"
  basicRouteRateLimiterFns :: "nsid \<Rightarrow> consume_fn list option"
  paramRouteRateLimiterFns :: "nsid \<Rightarrow> consume_fn list option"

text \<open>\<^verbatim>\<open>creator({...limit, keyPrefix: `rl-${limit.name}`})\<close>.\<close>

definition declared_limiter :: "rate_limits \<Rightarrow> rate_limit_desc \<Rightarrow> limiter" where
  "declared_limiter rl limit =
     rl_creator rl
       \<lparr>co_keyPrefix = ''rl-'' @ rd_name limit, co_durationMs = rd_durationMs limit,
        co_points = rd_points limit, co_calcKey = rd_calcKey limit,
        co_calcPoints = rd_calcPoints limit\<rparr>"

text \<open>The constructor (lines 74 to 111), for a server built from the definitions \<open>lexicons\<close>
  and the options \<open>opts\<close>.\<close>

definition createServer :: "(nsid \<Rightarrow> lex_def option) \<Rightarrow> options \<Rightarrow> server" where
  "createServer lexicons opts =
     \<lparr>lex = lexicons, options = opts, routes = [], subscriptions = Map.empty,
      globalRateLimiters =
        (case rateLimits opts of
           None \<Rightarrow> []
         | Some rl \<Rightarrow>
             (case rl_global rl of None \<Rightarrow> [] | Some ds \<Rightarrow> map (declared_limiter rl) ds)),
      sharedRateLimiters =
        (case rateLimits opts of
           None \<Rightarrow> Map.empty
         | Some rl \<Rightarrow>
             (case rl_shared rl of
                None \<Rightarrow> Map.empty
              | Some ds \<Rightarrow>
                  fold (\<lambda>limit m. m(rd_name limit \<mapsto> declared_limiter rl limit)) ds Map.empty)),
      basicRouteRateLimiterFns = Map.empty, paramRouteRateLimiterFns = Map.empty\<rparr>"

text \<open>\<^verbatim>\<open>String(i)\<close> of an index.\<close>

definition digit_char :: "nat \<Rightarrow> char" where
  "digit_char d = ''0123456789'' ! d"

fun show_nat :: "nat \<Rightarrow> string" where
  "show_nat n = (if n < 10 then [digit_char n] else show_nat (n div 10) @ [digit_char (n mod 10)])"

declare show_nat.simps [simp del]

text \<open>\<^verbatim>\<open>this.basicRouteRateLimiterFns[nsid].push(fn)\<close> and its parametric twin.\<close>

definition push_basic :: "nsid \<Rightarrow> consume_fn \<Rightarrow> server \<Rightarrow> server" where
  "push_basic nsid fn s =
     s\<lparr>basicRouteRateLimiterFns :=
         (basicRouteRateLimiterFns s)
           (nsid \<mapsto> (case basicRouteRateLimiterFns s nsid of None \<Rightarrow> [] | Some fns \<Rightarrow> fns) @ [fn])\<rparr>"

definition push_param :: "nsid \<Rightarrow> consume_fn \<Rightarrow> server \<Rightarrow> server" where
  "push_param nsid fn s =
     s\<lparr>paramRouteRateLimiterFns :=
         (paramRouteRateLimiterFns s)
           (nsid \<mapsto> (case paramRouteRateLimiterFns s nsid of None \<Rightarrow> [] | Some fns \<Rightarrow> fns) @ [fn])\<rparr>"

text \<open>Lines 473 to 482 and 495 to 504: the consume function of a spec, pushed on the basic
  list when the spec has neither \<^verbatim>\<open>calcKey\<close> nor \<^verbatim>\<open>calcPoints\<close> and on the parametric
  list otherwise.\<close>

definition install ::
  "nsid \<Rightarrow> nat \<Rightarrow> limiter \<Rightarrow> calc_key option \<Rightarrow> calc_points option \<Rightarrow> server \<Rightarrow> server" where
  "install nsid i rateLimiter calcKey calcPoints s =
     (let consumeFn =
            ConsumeFn (RouteLimit nsid i)
              (\<lambda>c. rl_consume rateLimiter c
                      (Some \<lparr>opt_calcKey = calcKey, opt_calcPoints = calcPoints\<rparr>))
      in if calcKey = None \<and> calcPoints = None then push_basic nsid consumeFn s
         else push_param nsid consumeFn s)"

text \<open>One turn of the loop of lines 467 to 507, for the spec \<open>limit\<close> at index \<open>i\<close>.\<close>

fun setup_limit :: "nsid \<Rightarrow> nat \<times> rate_limit_spec \<Rightarrow> server \<Rightarrow> server" where
  "setup_limit nsid (i, SharedRateLimitOpts name calcKey calcPoints) s =
     (case sharedRateLimiters s name of
        None \<Rightarrow> s
      | Some rateLimiter \<Rightarrow> install nsid i rateLimiter calcKey calcPoints s)"
| "setup_limit nsid (i, RouteRateLimitOpts durationMs points calcKey calcPoints) s =
     (case rateLimits (options s) of
        None \<Rightarrow> s
      | Some rl \<Rightarrow>
          (let rateLimiter =
                 rl_creator rl
                   \<lparr>co_keyPrefix = ''nsid-'' @ show_nat i, co_durationMs = durationMs,
                    co_points = points, co_calcKey = calcKey, co_calcPoints = calcPoints\<rparr>
           in install nsid i rateLimiter calcKey calcPoints
                (s\<lparr>sharedRateLimiters := (sharedRateLimiters s)(nsid \<mapsto> rateLimiter)\<rparr>)))"

text \<open>The consume functions of the global limiters (lines 203 and 455 to 457).\<close>

definition global_fns :: "limiter list \<Rightarrow> consume_fn list" where
  "global_fns gs =
     map (\<lambda>(i, limit). ConsumeFn (GlobalLimit i) (\<lambda>c. rl_consume limit c None))
       (List.enumerate 0 gs)"

definition limits_of :: "rate_limit_cfg \<Rightarrow> rate_limit_spec list" where
  "limits_of rl = (case rl of OneLimit limit \<Rightarrow> [limit] | ManyLimits limits \<Rightarrow> limits)"

definition setupRouteRateLimits :: "nsid \<Rightarrow> handler_config \<Rightarrow> server \<Rightarrow> server" where
  "setupRouteRateLimits nsid config s =
     (let s1 = s\<lparr>basicRouteRateLimiterFns :=
                   (basicRouteRateLimiterFns s)(nsid \<mapsto> global_fns (globalRateLimiters s)),
                 paramRouteRateLimiterFns := (paramRouteRateLimiterFns s)(nsid \<mapsto> [])\<rparr>
      in case hc_rateLimit config of
           None \<Rightarrow> s1
         | Some rl \<Rightarrow> fold (setup_limit nsid) (List.enumerate 0 (limits_of rl)) s1)"

section \<open>The route handler of createHandler\<close>

definition createHandler :: "server \<Rightarrow> nsid \<Rightarrow> lex_def \<Rightarrow> handler_config \<Rightarrow> route_handler" where
  "createHandler s nsid def routeCfg =
     \<lparr>rh_nsid = nsid, rh_def = def, rh_routeCfg = routeCfg,
      rh_validateResOutput = (validateResponse (options s) \<noteq> Some False),
      rh_basicRlFns = (case basicRouteRateLimiterFns s nsid of None \<Rightarrow> [] | Some fns \<Rightarrow> fns),
      rh_paramRlFns = (case paramRouteRateLimiterFns s nsid of None \<Rightarrow> [] | Some fns \<Rightarrow> fns)\<rparr>"

text \<open>
  Modelled from the spec: \<^verbatim>\<open>validateOutput\<close> of \<^verbatim>\<open>./util\<close>, which server.ts imports.
  Section 4.2, step 10 of the specification: the body is checked against the output schema;
  a mismatch is an internal error and is surfaced as InternalServerError. \<open>Some\<close> is what
  it throws.
\<close>

definition validateOutput ::
  "env \<Rightarrow> nsid \<Rightarrow> lex_def \<Rightarrow> handler_success option \<Rightarrow> thrown option" where
  "validateOutput e nsid def output =
     (case outputViolation e nsid def output of
        None \<Rightarrow> None
      | Some msg \<Rightarrow> Some (ThrownXRPC (InternalServerErrorOf (Some msg))))"

text \<open>How the body of the handler's \<^verbatim>\<open>try\<close> block ends: a reply was written; \<^verbatim>\<open>next\<close>
  was called with an error (lines 277, 307 and 329); or an exception reached the \<^verbatim>\<open>catch\<close>
  (with \<^verbatim>\<open>res.headersSent\<close> at that moment).\<close>

datatype flow = Replied reply | CalledNext thrown | Raised thrown bool

text \<open>\<^verbatim>\<open>setHeaders\<close> (lines 512 to 522): the headers whose value is not null.\<close>

definition setHeaders :: "headers \<Rightarrow> (string \<times> string) list" where
  "setHeaders hs = concat (map (\<lambda>(name, val). case val of None \<Rightarrow> [] | Some v \<Rightarrow> [(name, v)]) hs)"

text \<open>Lines 333 to 354: the reply for an ordinary success. A body stream that fails makes
  \<^verbatim>\<open>pipeline\<close> throw, after the headers were sent.\<close>

definition encode_success :: "handler_success \<Rightarrow> flow" where
  "encode_success output =
     (if hs_encoding output = ''application/json'' \<or> hs_encoding output = ''json''
      then Replied (Reply 200 (Some ''application/json'') (setHeaders (hs_headers output))
                      (SentJson (hs_body output)))
      else (case hs_body output of
              BodyStream (Readable bytes fin) \<Rightarrow>
                (case fin of
                   None \<Rightarrow> Replied (Reply 200 (Some (hs_encoding output))
                                      (setHeaders (hs_headers output)) (SentBody (hs_body output)))
                 | Some err \<Rightarrow> Raised err True)
            | b \<Rightarrow> Replied (Reply 200 (Some (hs_encoding output))
                              (setHeaders (hs_headers output)) (SentBody b))))"

text \<open>Lines 314 to 355: what the handler's output becomes.\<close>

definition respond :: "env \<Rightarrow> route_handler \<Rightarrow> handler_output \<Rightarrow> flow \<times> event list" where
  "respond e h output =
     (case output of
        NoOutput \<Rightarrow>
          (if rh_validateResOutput h
           then (case validateOutput e (rh_nsid h) (rh_def h) None of
                   Some err \<Rightarrow> (Raised err False, [EvValidateOutput False])
                 | None \<Rightarrow> (Replied (Reply 200 None [] SentNothing), [EvValidateOutput True]))
           else (Replied (Reply 200 None [] SentNothing), []))
      | PipeThroughStream encoding stream hs \<Rightarrow>
          (case stream of
             Readable bytes None \<Rightarrow>
               (Replied (Reply 200 (Some encoding) (setHeaders hs) (SentBytes bytes)), [])
           | Readable bytes (Some err) \<Rightarrow> (Raised err True, []))
      | PipeThroughBuffer encoding buffer hs \<Rightarrow>
          (Replied (Reply 200 (Some encoding) (setHeaders hs) (SentBytes buffer)), [])
      | OutputError he \<Rightarrow> (CalledNext (ThrownXRPC (fromError (ThrownHandlerError he))), [])
      | OutputSuccess out \<Rightarrow>
          (if rh_validateResOutput h
           then (case validateOutput e (rh_nsid h) (rh_def h) (Some out) of
                   Some err \<Rightarrow> (Raised err False, [EvValidateOutput False])
                 | None \<Rightarrow> (encode_success out, [EvValidateOutput True]))
           else (encode_success out, [])))"

text \<open>Line 312 and what follows it.\<close>

definition invoke_handler :: "env \<Rightarrow> route_handler \<Rightarrow> ctx \<Rightarrow> flow \<times> event list" where
  "invoke_handler e h reqCtx =
     (case hc_handler (rh_routeCfg h) reqCtx of
        Throws err \<Rightarrow> (Raised err False, [EvHandler])
      | Returns output \<Rightarrow> (case respond e h output of (f, evs) \<Rightarrow> (f, EvHandler # evs)))"

text \<open>Lines 303 to 309, then the handler: the parametric rate limits, on the full context.\<close>

definition param_stage ::
  "env \<Rightarrow> route_handler \<Rightarrow> ctx \<Rightarrow> store \<Rightarrow> flow \<times> event list \<times> store" where
  "param_stage e h reqCtx st =
     (if rh_paramRlFns h \<noteq> []
      then (case consumeMany reqCtx (rh_paramRlFns h) st of
              (Inl err, evs, st') \<Rightarrow> (Raised err False, evs, st')
            | (Inr (Some status), evs, st') \<Rightarrow>
                (CalledNext (ThrownXRPC (RateLimitExceededError status)), evs, st')
            | (Inr None, evs, st') \<Rightarrow>
                (case invoke_handler e h reqCtx of (f, evs') \<Rightarrow> (f, evs @ evs', st')))
      else (case invoke_handler e h reqCtx of (f, evs') \<Rightarrow> (f, evs', st)))"

text \<open>Lines 281 to 301, then the rest: parameters are decoded and validated, then the
  input; the context is assembled from them and from \<^verbatim>\<open>locals.auth\<close>.\<close>

definition validate_stage ::
  "env \<Rightarrow> route_handler \<Rightarrow> request \<Rightarrow> auth option \<Rightarrow> store \<Rightarrow> flow \<times> event list \<times> store" where
  "validate_stage e h req au st =
     (case assertValidXrpcParams e (rh_nsid h)
             (decodeQueryParams e (rh_def h) (req_query req)) of
        Inl msg \<Rightarrow>
          (Raised (ThrownXRPC (InvalidRequestError msg)) False,
           [EvDecodeParams, EvAssertParams False], st)
      | Inr ps \<Rightarrow>
          (case validateInput e (rh_nsid h) (rh_def h) req of
             Inl err \<Rightarrow>
               (Raised err False, [EvDecodeParams, EvAssertParams True, EvValidateInput False], st)
           | Inr inp \<Rightarrow>
               (case param_stage e h
                       \<lparr>ctx_req = req, ctx_auth = au, ctx_params = ps, ctx_input = inp\<rparr> st of
                  (f, evs, st') \<Rightarrow>
                    (f, [EvDecodeParams, EvAssertParams True, EvValidateInput True] @ evs, st'))))"

text \<open>The context of the rate limits that run before validation (lines 196 to 201, 262).\<close>

definition bare_ctx :: "request \<Rightarrow> ctx" where
  "bare_ctx req = \<lparr>ctx_req = req, ctx_auth = None, ctx_params = [], ctx_input = None\<rparr>"

text \<open>Lines 271 to 355, the body of the \<^verbatim>\<open>try\<close>: the basic rate limits, then the rest.\<close>

definition try_stage ::
  "env \<Rightarrow> route_handler \<Rightarrow> request \<Rightarrow> auth option \<Rightarrow> store \<Rightarrow> flow \<times> event list \<times> store" where
  "try_stage e h req au st =
     (if rh_basicRlFns h \<noteq> []
      then (case consumeMany (bare_ctx req) (rh_basicRlFns h) st of
              (Inl err, evs, st') \<Rightarrow> (Raised err False, evs, st')
            | (Inr (Some status), evs, st') \<Rightarrow>
                (CalledNext (ThrownXRPC (RateLimitExceededError status)), evs, st')
            | (Inr None, evs, st') \<Rightarrow>
                (case validate_stage e h req au st' of
                   (f, evs', st'') \<Rightarrow> (f, evs @ evs', st'')))
      else validate_stage e h req au st)"

text \<open>Lines 356 to 365: a falsy exception is replaced by an \<^verbatim>\<open>InternalServerError\<close>.\<close>

definition catch_next :: "thrown \<Rightarrow> bool \<Rightarrow> step" where
  "catch_next err headersSent =
     (if err = ThrownFalsy then NextError (ThrownXRPC (InternalServerErrorOf None)) headersSent
      else NextError err headersSent)"

definition finish :: "flow \<Rightarrow> step" where
  "finish f =
     (case f of
        Replied r \<Rightarrow> Sent r
      | CalledNext err \<Rightarrow> NextError err False
      | Raised err headersSent \<Rightarrow> catch_next err headersSent)"

text \<open>The request handler \<^verbatim>\<open>createHandler\<close> returns (lines 269 to 366), run on a request
  whose \<^verbatim>\<open>locals.auth\<close> is \<open>au\<close>.\<close>

definition run_handler ::
  "env \<Rightarrow> route_handler \<Rightarrow> request \<Rightarrow> auth option \<Rightarrow> store \<Rightarrow> step \<times> event list \<times> store" where
  "run_handler e h req au st =
     (case try_stage e h req au st of (f, evs, st') \<Rightarrow> (finish f, evs, st'))"

section \<open>Registration\<close>

text \<open>\<^verbatim>\<open>addRoute\<close> (lines 168 to 189): the rate limits are set up, then the route is added
  at the end of the router, with the handler built on the server as it is then.\<close>

definition addRoute :: "nsid \<Rightarrow> lex_def \<Rightarrow> handler_config \<Rightarrow> server \<Rightarrow> server" where
  "addRoute nsid def config s =
     (let verb = (if lex_type def = Procedure then RoutePost else RouteGet);
          s' = setupRouteRateLimits nsid config s
      in s'\<lparr>routes :=
             routes s' @
               [\<lparr>rt_verb = verb, rt_nsid = nsid, rt_auth = hc_auth config,
                 rt_handler = createHandler s' nsid def config\<rparr>]\<rparr>)"

text \<open>\<^verbatim>\<open>addMethod\<close> (lines 120 to 129); \<open>Inl\<close> is the message of the \<^verbatim>\<open>Error\<close> it throws.\<close>

definition addMethod :: "nsid \<Rightarrow> config_or_fn \<Rightarrow> server \<Rightarrow> string + server" where
  "addMethod nsid configOrFn s =
     (let config = (case configOrFn of
                      Fn f \<Rightarrow> \<lparr>hc_auth = None, hc_rateLimit = None, hc_handler = f\<rparr>
                    | Config c \<Rightarrow> c)
      in case lex s nsid of
           None \<Rightarrow> Inl (''Lex def for '' @ nsid @ '' is not a query or a procedure'')
         | Some def \<Rightarrow>
             (if lex_type def = Query \<or> lex_type def = Procedure
              then Inr (addRoute nsid def config s)
              else Inl (''Lex def for '' @ nsid @ '' is not a query or a procedure'')))"

text \<open>\<^verbatim>\<open>addSubscription\<close> (lines 369 to 430): \<^verbatim>\<open>this.subscriptions.set(nsid, ...)\<close>.\<close>

definition addSubscription :: "nsid \<Rightarrow> lex_def \<Rightarrow> stream_config \<Rightarrow> server \<Rightarrow> server" where
  "addSubscription nsid def config s =
     s\<lparr>subscriptions :=
         (subscriptions s)(nsid \<mapsto> \<lparr>sub_nsid = nsid, sub_def = def, sub_config = config\<rparr>)\<rparr>"

text \<open>\<^verbatim>\<open>addStreamMethod\<close> (lines 138 to 150).\<close>

definition addStreamMethod :: "nsid \<Rightarrow> stream_config_or_fn \<Rightarrow> server \<Rightarrow> string + server" where
  "addStreamMethod nsid configOrFn s =
     (let config = (case configOrFn of
                      StreamFn f \<Rightarrow> \<lparr>sc_auth = None, sc_handler = f\<rparr>
                    | StreamConfig c \<Rightarrow> c)
      in case lex s nsid of
           None \<Rightarrow> Inl (''Lex def for '' @ nsid @ '' is not a subscription'')
         | Some def \<Rightarrow>
             (if lex_type def = Subscription
              then Inr (addSubscription nsid def config s)
              else Inl (''Lex def for '' @ nsid @ '' is not a subscription'')))"

section \<open>Dispatch\<close>

text \<open>
  Express, as server.ts uses it. The router runs \<^verbatim>\<open>this.routes\<close>, then
  \<^verbatim>\<open>catchall\<close> on \<^verbatim>\<open>/xrpc/:methodId\<close>, then \<^verbatim>\<open>errorMiddleware\<close>. Routes are tried in
  the order they were added; a route serves the requests of its verb and path. A middleware
  that calls \<^verbatim>\<open>next(err)\<close> with a truthy \<open>err\<close> hands the request to the error middleware,
  skipping every ordinary middleware; \<^verbatim>\<open>next()\<close>, or \<^verbatim>\<open>next\<close> of a falsy value, hands it to
  the next ordinary middleware (lines 357 to 359 of server.ts say so). The middlewares of a
  route end with the handler of \<^verbatim>\<open>createHandler\<close>, which replies or calls \<^verbatim>\<open>next\<close> with
  an error, so a request served by a route never reaches a later route nor the catch-all.
  Express's own answers (to \<^verbatim>\<open>HEAD\<close> and \<^verbatim>\<open>OPTIONS\<close>, and its path patterns) are not
  modelled: a route path is the method id, a verb is matched as written.
\<close>

definition express_next :: "thrown \<Rightarrow> step" where
  "express_next err = (if err = ThrownFalsy then NextOk else NextError err False)"

text \<open>\<^verbatim>\<open>createAuthMiddleware\<close> (lines 539 to 553): \<open>Inr\<close> is \<^verbatim>\<open>locals.auth\<close> when the
  request goes on to the next middleware of the route.\<close>

definition createAuthMiddleware :: "auth_verifier \<Rightarrow> request \<Rightarrow> thrown + auth option" where
  "createAuthMiddleware verifier req =
     (case verifier req of
        Verified a \<Rightarrow> Inr (Some a)
      | VerifierError he \<Rightarrow> Inl (ThrownXRPC (fromHandlerError he))
      | VerifierThrows err \<Rightarrow> (if err = ThrownFalsy then Inr None else Inl err))"

text \<open>The middlewares of a route, in the order \<^verbatim>\<open>addRoute\<close> pushed them.\<close>

definition run_route ::
  "env \<Rightarrow> route \<Rightarrow> request \<Rightarrow> store \<Rightarrow> step \<times> event list \<times> store" where
  "run_route e rt req st =
     (let authEvs = (case rt_auth rt of None \<Rightarrow> [] | Some verifier \<Rightarrow> [EvVerifyAuth]);
          bodyEvs = (if rt_verb rt = RoutePost then [EvParseBody] else [])
      in case (case rt_auth rt of
                 None \<Rightarrow> Inr None
               | Some verifier \<Rightarrow> createAuthMiddleware verifier req) of
           Inl err \<Rightarrow> (NextError err False, authEvs, st)
         | Inr au \<Rightarrow>
             (case (if rt_verb rt = RoutePost then parseBody e req else None) of
                Some err \<Rightarrow> (NextError err False, authEvs @ bodyEvs, st)
              | None \<Rightarrow>
                  (case run_handler e (rt_handler rt) req au st of
                     (stp, evs, st') \<Rightarrow> (stp, authEvs @ bodyEvs @ evs, st'))))"

text \<open>\<^verbatim>\<open>catchall\<close> (lines 191 to 237).\<close>

definition catchall :: "server \<Rightarrow> request \<Rightarrow> store \<Rightarrow> step \<times> event list \<times> store" where
  "catchall s req st =
     (case consumeMany (bare_ctx req) (global_fns (globalRateLimiters s)) st of
        (Inl err, evs, st') \<Rightarrow> (express_next err, evs, st')
      | (Inr (Some status), evs, st') \<Rightarrow>
          (NextError (ThrownXRPC (RateLimitExceededError status)) False, evs, st')
      | (Inr None, evs, st') \<Rightarrow>
          (case custom_catchall (options s) of
             Some custom \<Rightarrow> (custom req, evs @ [EvCustomCatchall], st')
           | None \<Rightarrow>
               (case lex s (req_methodId req) of
                  None \<Rightarrow>
                    (NextError (ThrownXRPC MethodNotImplementedError) False, evs @ [EvGetDef], st')
                | Some def \<Rightarrow>
                    (if lex_type def = Query \<and> req_method req \<noteq> ''GET''
                     then NextError (ThrownXRPC (InvalidRequestError
                            (''Incorrect HTTP method ('' @ req_method req @ '') expected GET'')))
                            False
                     else if lex_type def = Procedure \<and> req_method req \<noteq> ''POST''
                     then NextError (ThrownXRPC (InvalidRequestError
                            (''Incorrect HTTP method ('' @ req_method req @ '') expected POST'')))
                            False
                     else NextOk,
                     evs @ [EvGetDef], st'))))"

text \<open>What reaches the client: a reply; the wire error of \<^verbatim>\<open>errorMiddleware\<close>; Express's
  own handling of an error raised after the headers were sent; or Express's answer to a
  request no middleware took.\<close>

datatype wire = Responded reply | WireError response_type error_payload | Fallback thrown | Unhandled

text \<open>\<^verbatim>\<open>errorMiddleware\<close> (lines 555 to 577), without its logging.\<close>

definition errorMiddleware :: "thrown \<Rightarrow> bool \<Rightarrow> wire" where
  "errorMiddleware err headersSent =
     (let xrpcError = fromError err
      in if headersSent then Fallback err
         else WireError (xe_type xrpcError) (payload xrpcError))"

definition deliver :: "step \<Rightarrow> wire" where
  "deliver stp =
     (case stp of
        Sent r \<Rightarrow> Responded r
      | NextError err headersSent \<Rightarrow> errorMiddleware err headersSent
      | NextOk \<Rightarrow> Unhandled)"

definition route_matches :: "route \<Rightarrow> request \<Rightarrow> bool" where
  "route_matches rt req =
     (rt_nsid rt = req_methodId req
      \<and> req_method req = (case rt_verb rt of RouteGet \<Rightarrow> ''GET'' | RoutePost \<Rightarrow> ''POST''))"

text \<open>One request through the router: what the client receives, the steps taken, and the
  counter store afterwards.\<close>

definition handle_request ::
  "env \<Rightarrow> server \<Rightarrow> request \<Rightarrow> store \<Rightarrow> wire \<times> event list \<times> store" where
  "handle_request e s req st =
     (case (case find (\<lambda>rt. route_matches rt req) (routes s) of
              Some rt \<Rightarrow> run_route e rt req st
            | None \<Rightarrow> catchall s req st) of
        (stp, evs, st') \<Rightarrow> (deliver stp, evs, st'))"

text \<open>The \<^verbatim>\<open>upgrade\<close> listener of \<^verbatim>\<open>enableStreamingOnListen\<close> (lines 437 to 446): the
  frames of the connection, or \<open>None\<close> when the socket is destroyed.\<close>

definition upgrade :: "env \<Rightarrow> server \<Rightarrow> request \<Rightarrow> frame list option" where
  "upgrade e s req =
     (case subscriptions s (req_methodId req) of
        None \<Rightarrow> None
      | Some sub \<Rightarrow> Some (stream_frames e (sub_nsid sub) (sub_def sub) (sub_config sub) req))"

section \<open>A limiter on the counter store\<close>

text \<open>
  Modelled from the spec: the rate limiter of \<^verbatim>\<open>./rate-limiter\<close> that a \<^verbatim>\<open>creator\<close> builds
  on the external counter store. Section 4.3 of the specification: each limiter computes a
  key (default: the network origin; override by the spec's key function) and a point cost
  (default 1; override by the cost function), then asks the external store to debit that
  many points from that key's window, and receives either "allowed, N remaining" or
  "rejected". Sections 1 and 5: the counters live in one external store. The
  \<^verbatim>\<open>keyPrefix\<close> server.ts passes to the creator is the prefix of the limiter's keys in that
  store. A rejected request leaves the counter as it was.
\<close>

definition store_limiter :: "creator_opts \<Rightarrow> limiter" where
  "store_limiter co =
     RateLimiter (\<lambda>c opts st.
       (let calcKey =
              (case (case opts of None \<Rightarrow> None | Some os \<Rightarrow> opt_calcKey os) of
                 Some f \<Rightarrow> f
               | None \<Rightarrow> (case co_calcKey co of
                            Some f \<Rightarrow> f
                          | None \<Rightarrow> (\<lambda>c. req_ip (ctx_req c))));
            calcPoints =
              (case (case opts of None \<Rightarrow> None | Some os \<Rightarrow> opt_calcPoints os) of
                 Some f \<Rightarrow> f
               | None \<Rightarrow> (case co_calcPoints co of Some f \<Rightarrow> f | None \<Rightarrow> (\<lambda>c. 1)));
            key = co_keyPrefix co @ '':'' @ calcKey c;
            consumedPoints = st key + calcPoints c
        in if consumedPoints \<le> co_points co
           then (Inr (Status (RateLimiterStatus (co_points co) (co_points co - consumedPoints))),
                 st(key := consumedPoints))
           else (Inr (Exceeded (RateLimiterStatus (co_points co) 0)), st)))"

section \<open>Vocabulary for the request claims\<close>

text \<open>The handler that raises where \<open>f\<close> returns a declared error: in place of the value
  \<^verbatim>\<open>{status, error, message}\<close> it throws the \<^verbatim>\<open>XRPCError\<close> of the same status, error
  name and message, and it does what \<open>f\<close> does otherwise.\<close>

definition raises_instead :: "handler \<Rightarrow> handler" where
  "raises_instead f =
     (\<lambda>c. case f c of
             Returns (OutputError he) \<Rightarrow> Throws (ThrownXRPC (fromHandlerError he))
           | r \<Rightarrow> r)"

text \<open>The route handler \<open>h\<close> with the function \<open>f\<close> as its handler.\<close>

definition with_handler :: "handler \<Rightarrow> route_handler \<Rightarrow> route_handler" where
  "with_handler f h = h\<lparr>rh_routeCfg := (rh_routeCfg h)\<lparr>hc_handler := f\<rparr>\<rparr>"

text \<open>The step a flow ends in (the \<^verbatim>\<open>catch\<close> block applied), with its events and store.\<close>

definition settle :: "flow \<times> event list \<Rightarrow> step \<times> event list" where
  "settle r = (case r of (f, evs) \<Rightarrow> (finish f, evs))"

definition settle3 :: "flow \<times> event list \<times> store \<Rightarrow> step \<times> event list \<times> store" where
  "settle3 r = (case r of (f, evs, st) \<Rightarrow> (finish f, evs, st))"






text \<open>The tags of the consume functions set up for a method: its basic list and its
  parametric list.\<close>

definition basic_tags :: "server \<Rightarrow> nsid \<Rightarrow> rl_tag list" where
  "basic_tags s nsid =
     map cf_tag (case basicRouteRateLimiterFns s nsid of None \<Rightarrow> [] | Some fns \<Rightarrow> fns)"

definition param_tags :: "server \<Rightarrow> nsid \<Rightarrow> rl_tag list" where
  "param_tags s nsid =
     map cf_tag (case paramRouteRateLimiterFns s nsid of None \<Rightarrow> [] | Some fns \<Rightarrow> fns)"

text \<open>The configuration \<open>config\<close> with \<open>limits\<close> as its \<^verbatim>\<open>rateLimit\<close>.\<close>

definition with_limits :: "rate_limit_spec list \<Rightarrow> handler_config \<Rightarrow> handler_config" where
  "with_limits limits config = config\<lparr>hc_rateLimit := Some (ManyLimits limits)\<rparr>"




text \<open>The specs of a configuration, as the loop of \<^verbatim>\<open>setupRouteRateLimits\<close> reads them
  (lines 461 to 464), and the server when that loop starts (lines 452 to 459).\<close>

definition limits_cfg :: "handler_config \<Rightarrow> rate_limit_spec list" where
  "limits_cfg config = (case hc_rateLimit config of None \<Rightarrow> [] | Some rl \<Rightarrow> limits_of rl)"


text \<open>The events of the request checks (parameter decoding, parameter validation, input
  validation), and the three events of checks that all succeeded.\<close>

fun is_request_check :: "event \<Rightarrow> bool" where
  "is_request_check EvDecodeParams = True"
| "is_request_check (EvAssertParams ok) = True"
| "is_request_check (EvValidateInput ok) = True"
| "is_request_check ev = False"




text \<open>The consumption of one of the consume functions \<open>fns\<close>.\<close>

definition consumes :: "consume_fn list \<Rightarrow> event \<Rightarrow> bool" where
  "consumes fns ev = (case ev of EvConsume t \<Rightarrow> t \<in> set (map cf_tag fns) | _ \<Rightarrow> False)"






text \<open>The consume functions set up for a method.\<close>

definition basic_fns :: "server \<Rightarrow> nsid \<Rightarrow> consume_fn list" where
  "basic_fns s nsid = (case basicRouteRateLimiterFns s nsid of None \<Rightarrow> [] | Some fns \<Rightarrow> fns)"

definition param_fns :: "server \<Rightarrow> nsid \<Rightarrow> consume_fn list" where
  "param_fns s nsid = (case paramRouteRateLimiterFns s nsid of None \<Rightarrow> [] | Some fns \<Rightarrow> fns)"


text \<open>The consumptions of global limiters in a run, and the run in which every global
  limiter of the server is consumed once, in the order of their declaration.\<close>

fun is_global :: "event \<Rightarrow> bool" where
  "is_global (EvConsume (GlobalLimit g)) = True"
| "is_global ev = False"

definition global_events :: "event list \<Rightarrow> event list" where
  "global_events evs = filter is_global evs"





section \<open>Servers as programs build them\<close>

text \<open>A server is built by the constructor and then by registrations that succeed
  (\<^verbatim>\<open>method\<close>, \<^verbatim>\<open>addMethod\<close>, \<^verbatim>\<open>streamMethod\<close>, \<^verbatim>\<open>addStreamMethod\<close>).\<close>

inductive built :: "server \<Rightarrow> bool" where
  created: "built (createServer lexicons opts)"
| addedMethod: "built s \<Longrightarrow> addMethod nsid configOrFn s = Inr s' \<Longrightarrow> built s'"
| addedStreamMethod: "built s \<Longrightarrow> addStreamMethod nsid configOrFn s = Inr s' \<Longrightarrow> built s'"

text \<open>The verb of the route \<^verbatim>\<open>addRoute\<close> adds for a definition.\<close>

definition verb_of :: "lex_def \<Rightarrow> route_verb" where
  "verb_of def = (if lex_type def = Procedure then RoutePost else RouteGet)"

text \<open>The method \<open>nsid\<close> is registered: the router has a route for it.\<close>

definition registered :: "server \<Rightarrow> nsid \<Rightarrow> bool" where
  "registered s nsid = list_ex (\<lambda>rt. rt_nsid rt = nsid) (routes s)"




section \<open>Example inputs\<close>

text \<open>Schema functions that accept everything, and requests from one network origin.\<close>

definition env_ok :: env where
  "env_ok =
     \<lparr>decodeQueryParams = (\<lambda>def q. map (\<lambda>(k, v). (k, JStr v)) q),
      assertValidXrpcParams = (\<lambda>nsid ps. Inr ps),
      validateInput = (\<lambda>nsid def req. Inr None),
      outputViolation = (\<lambda>nsid def out. None),
      parseBody = (\<lambda>req. None)\<rparr>"

definition request_of :: "string \<Rightarrow> nsid \<Rightarrow> request" where
  "request_of verb nsid =
     \<lparr>req_method = verb, req_methodId = nsid, req_query = [], req_ip = ''10.0.0.1'',
      req_body = []\<rparr>"

definition def_of :: "def_type \<Rightarrow> lex_def" where
  "def_of ty = \<lparr>lex_type = ty, lex_schema = []\<rparr>"

text \<open>A subscription handler that yields two values and then throws, one that yields the
  same values and ends, and a verifier that rejects every request.\<close>

definition two_items :: "item list" where
  "two_items = [ValueItem (JObj [(''count'', JNum 2)]), ValueItem (JObj [(''count'', JNum 1)])]"

definition raising_stream :: stream_config where
  "raising_stream =
     \<lparr>sc_auth = None,
      sc_handler = (\<lambda>c. (two_items, StreamRaises (ThrownXRPC (InvalidRequestError ''boom''))))\<rparr>"

definition ending_stream :: stream_config where
  "ending_stream = \<lparr>sc_auth = None, sc_handler = (\<lambda>c. (two_items, StreamEnds))\<rparr>"



text \<open>A lexicon with a query, a procedure and a subscription; options that set nothing; an
  empty counter store.\<close>

definition lex_example :: "nsid \<Rightarrow> lex_def option" where
  "lex_example =
     [''io.example.ping'' \<mapsto> def_of Query, ''io.example.post'' \<mapsto> def_of Procedure,
      ''io.example.stream'' \<mapsto> def_of Subscription]"

definition no_options :: options where
  "no_options = \<lparr>validateResponse = None, custom_catchall = None, rateLimits = None\<rparr>"

definition empty_store :: store where
  "empty_store = (\<lambda>k. 0)"

definition plain_config :: "handler \<Rightarrow> handler_config" where
  "plain_config f = \<lparr>hc_auth = None, hc_rateLimit = None, hc_handler = f\<rparr>"

text \<open>A handler that declines every request with a declared error.\<close>

definition declines :: handler where
  "declines = (\<lambda>c. Returns (OutputError (HandlerError InvalidRequest (Some ''BadThing'') (Some ''nope''))))"


definition greets :: handler where
  "greets = (\<lambda>c. Returns (OutputSuccess
       (HandlerSuccess ''application/json'' (BodyValue (JObj [(''hello'', JStr ''world'')])) [])))"




definition ping_server :: server where
  "ping_server =
     addRoute ''io.example.ping'' (def_of Query) (plain_config greets)
       (createServer lex_example no_options)"

text \<open>The server \<open>ping_server\<close> after a second registration of \<^verbatim>\<open>io.example.ping\<close>, with
  the handler that declines; the server where only that handler is registered; and a server
  where the subscription \<^verbatim>\<open>io.example.stream\<close> is registered twice.\<close>

definition twice_server :: server where
  "twice_server =
     addRoute ''io.example.ping'' (def_of Query) (plain_config declines) ping_server"

definition declining_server :: server where
  "declining_server =
     addRoute ''io.example.ping'' (def_of Query) (plain_config declines)
       (createServer lex_example no_options)"

definition stream_server :: server where
  "stream_server =
     addSubscription ''io.example.stream'' (def_of Subscription) raising_stream
       (createServer lex_example no_options)"

definition stream_twice_server :: server where
  "stream_twice_server =
     addSubscription ''io.example.stream'' (def_of Subscription) ending_stream stream_server"

text \<open>Options with a creator and no global or shared limiter declared; a server with these
  options where \<^verbatim>\<open>io.example.ping\<close> lists a per-method spec of five points and then a
  shared spec that names \<^verbatim>\<open>io.example.ping\<close>.\<close>

definition limited_options :: options where
  "limited_options =
     no_options\<lparr>rateLimits :=
       Some \<lparr>rl_creator = store_limiter, rl_global = None, rl_shared = None\<rparr>\<rparr>"







text \<open>A per-method limit of one point a minute, and a server where the query
  \<^verbatim>\<open>io.example.ping\<close> and the procedure \<^verbatim>\<open>io.example.post\<close> are each registered with
  such a limit of their own.\<close>

definition one_a_minute :: rate_limit_spec where
  "one_a_minute = RouteRateLimitOpts 60000 1 None None"

definition budget_server :: server where
  "budget_server =
     addRoute ''io.example.post'' (def_of Procedure)
       (with_limits [one_a_minute] (plain_config greets))
       (addRoute ''io.example.ping'' (def_of Query)
          (with_limits [one_a_minute] (plain_config greets))
          (createServer lex_example limited_options))"



section \<open>Unfolding the model\<close>

lemmas pipeline_defs =
  handle_request_def run_route_def run_handler_def try_stage_def validate_stage_def
  param_stage_def invoke_handler_def respond_def encode_success_def finish_def catch_next_def
  deliver_def errorMiddleware_def route_matches_def catchall_def bare_ctx_def
  createAuthMiddleware_def express_next_def validateOutput_def setHeaders_def

lemmas registration_defs =
  addMethod_def addRoute_def createHandler_def setupRouteRateLimits_def global_fns_def
  limits_of_def install_def push_basic_def push_param_def createServer_def
  declared_limiter_def addStreamMethod_def addSubscription_def

lemmas example_defs =
  env_ok_def request_of_def def_of_def lex_example_def no_options_def plain_config_def
  empty_store_def

lemma find_snoc:
  "find P (xs @ [x]) = (case find P xs of Some y \<Rightarrow> Some y | None \<Rightarrow> if P x then Some x else None)"
  by (induction xs) auto

lemma catchall_cong:
  "globalRateLimiters s = globalRateLimiters s' \<Longrightarrow> options s = options s' \<Longrightarrow>
   lex s = lex s' \<Longrightarrow> catchall s req st = catchall s' req st"
  unfolding catchall_def by metis

lemma handle_request_last_route:
  assumes r1: "routes s1 = rs @ [r1]" and r2: "routes s2 = rs @ [r2]"
    and m: "route_matches r1 req = route_matches r2 req"
    and run: "run_route e r1 req st = run_route e r2 req st"
    and c: "catchall s1 req st = catchall s2 req st"
  shows "handle_request e s1 req st = handle_request e s2 req st"
proof (cases "find (\<lambda>rt. route_matches rt req) rs")
  case None
  show ?thesis
  proof (cases "route_matches r2 req")
    case True
    with None m run show ?thesis by (simp add: handle_request_def r1 r2 find_snoc)
  next
    case False
    with None m c show ?thesis by (simp add: handle_request_def r1 r2 find_snoc)
  qed
next
  case (Some rt)
  then show ?thesis by (simp add: handle_request_def r1 r2 find_snoc)
qed


lemma show_nat_digit: "n < 10 \<Longrightarrow> show_nat n = [digit_char n]"
  by (simp add: show_nat.simps)

section \<open>What registration keeps\<close>

lemma install_fields [simp]:
  "lex (install nsid i rl ck cp s) = lex s"
  "options (install nsid i rl ck cp s) = options s"
  "routes (install nsid i rl ck cp s) = routes s"
  "subscriptions (install nsid i rl ck cp s) = subscriptions s"
  "globalRateLimiters (install nsid i rl ck cp s) = globalRateLimiters s"
  "sharedRateLimiters (install nsid i rl ck cp s) = sharedRateLimiters s"
  by (simp_all add: install_def push_basic_def push_param_def Let_def)

lemma setup_limit_fields [simp]:
  "lex (setup_limit nsid il s) = lex s"
  "options (setup_limit nsid il s) = options s"
  "routes (setup_limit nsid il s) = routes s"
  "subscriptions (setup_limit nsid il s) = subscriptions s"
  "globalRateLimiters (setup_limit nsid il s) = globalRateLimiters s"
  by (cases il; cases "snd il"; simp add: Let_def split: option.splits)+

lemma fold_setup_limit_fields [simp]:
  "lex (fold (setup_limit nsid) ils s) = lex s"
  "options (fold (setup_limit nsid) ils s) = options s"
  "routes (fold (setup_limit nsid) ils s) = routes s"
  "subscriptions (fold (setup_limit nsid) ils s) = subscriptions s"
  "globalRateLimiters (fold (setup_limit nsid) ils s) = globalRateLimiters s"
  by (induction ils arbitrary: s; simp)+

lemma setupRouteRateLimits_fields [simp]:
  "lex (setupRouteRateLimits nsid config s) = lex s"
  "options (setupRouteRateLimits nsid config s) = options s"
  "routes (setupRouteRateLimits nsid config s) = routes s"
  "subscriptions (setupRouteRateLimits nsid config s) = subscriptions s"
  "globalRateLimiters (setupRouteRateLimits nsid config s) = globalRateLimiters s"
  by (simp_all add: setupRouteRateLimits_def Let_def split: option.splits)

lemma addRoute_fields [simp]:
  "lex (addRoute nsid def config s) = lex s"
  "options (addRoute nsid def config s) = options s"
  "subscriptions (addRoute nsid def config s) = subscriptions s"
  "globalRateLimiters (addRoute nsid def config s) = globalRateLimiters s"
  "routes (addRoute nsid def config s)
     = routes s @ [\<lparr>rt_verb = verb_of def, rt_nsid = nsid, rt_auth = hc_auth config,
          rt_handler = createHandler (setupRouteRateLimits nsid config s) nsid def config\<rparr>]"
  by (simp_all add: addRoute_def Let_def verb_of_def)

lemma addMethod_Inr:
  assumes "addMethod nsid configOrFn s = Inr s'"
  obtains def config where "lex s nsid = Some def"
    and "lex_type def = Query \<or> lex_type def = Procedure"
    and "s' = addRoute nsid def config s"
  using assms by (auto simp: addMethod_def Let_def split: option.splits if_splits)

lemma addStreamMethod_Inr:
  assumes "addStreamMethod nsid configOrFn s = Inr s'"
  obtains def config where "lex s nsid = Some def" and "lex_type def = Subscription"
    and "s' = addSubscription nsid def config s"
  using assms by (auto simp: addStreamMethod_def Let_def split: option.splits if_splits)

lemma addSubscription_fields [simp]:
  "lex (addSubscription nsid def config s) = lex s"
  "options (addSubscription nsid def config s) = options s"
  "routes (addSubscription nsid def config s) = routes s"
  "globalRateLimiters (addSubscription nsid def config s) = globalRateLimiters s"
  by (simp_all add: addSubscription_def)

text \<open>Every route of a built server has the verb of the definition of its method.\<close>

lemma built_route_verbs:
  "built s \<Longrightarrow> rt \<in> set (routes s) \<Longrightarrow>
   \<exists>def. lex s (rt_nsid rt) = Some def \<and> rt_verb rt = verb_of def
     \<and> (lex_type def = Query \<or> lex_type def = Procedure)"
proof (induction arbitrary: rt rule: built.induct)
  case (created lexicons opts)
  then show ?case by (simp add: createServer_def)
next
  case (addedMethod s nsid configOrFn s')
  from addedMethod.hyps(2) obtain def config where d: "lex s nsid = Some def"
    and k: "lex_type def = Query \<or> lex_type def = Procedure"
    and s': "s' = addRoute nsid def config s"
    by (rule addMethod_Inr)
  from addedMethod.prems s' consider "rt \<in> set (routes s)" | "rt_nsid rt = nsid" "rt_verb rt = verb_of def"
    by auto
  then show ?case
  proof cases
    case 1
    with addedMethod.IH s' show ?thesis by simp
  next
    case 2
    with d k s' show ?thesis by simp
  qed
next
  case (addedStreamMethod s nsid configOrFn s')
  from addedStreamMethod.hyps(2) obtain def config where "s' = addSubscription nsid def config s"
    by (rule addStreamMethod_Inr)
  with addedStreamMethod.IH addedStreamMethod.prems show ?case by simp
qed

section \<open>The example servers\<close>

lemma built_ping_server: "built ping_server"
proof -
  have "addMethod ''io.example.ping'' (Config (plain_config greets))
          (createServer lex_example no_options) = Inr ping_server"
    by (simp add: addMethod_def ping_server_def lex_example_def def_of_def createServer_def)
  with built.created [of lex_example no_options] show ?thesis
    by (rule built.addedMethod)
qed

section \<open>The tables of consume functions\<close>










lemma tags_shared_update [simp]:
  "basic_tags (s\<lparr>sharedRateLimiters := x\<rparr>) nsid = basic_tags s nsid"
  "param_tags (s\<lparr>sharedRateLimiters := x\<rparr>) nsid = param_tags s nsid"
  by (simp_all add: basic_tags_def param_tags_def)











lemma dropped_turn:
  "sharedRateLimiters s name = None \<Longrightarrow>
   setup_limit nsid (i, SharedRateLimitOpts name calcKey calcPoints) s = s"
  by simp

lemma install_tables:
  "basicRouteRateLimiterFns (install nsid i rl ck cp s) m
     = (if m = nsid \<and> ck = None \<and> cp = None
        then Some ((case basicRouteRateLimiterFns s nsid of None \<Rightarrow> [] | Some fns \<Rightarrow> fns)
               @ [ConsumeFn (RouteLimit nsid i)
                    (\<lambda>c. rl_consume rl c (Some \<lparr>opt_calcKey = ck, opt_calcPoints = cp\<rparr>))])
        else basicRouteRateLimiterFns s m)"
  by (simp add: install_def push_basic_def push_param_def Let_def)

lemma setup_limit_shared_other:
  "name \<noteq> nsid \<Longrightarrow>
   sharedRateLimiters (setup_limit nsid il s) name = sharedRateLimiters s name"
  by (cases il; cases "snd il"; simp add: Let_def split: option.splits)

lemma fold_setup_limit_shared_other:
  "name \<noteq> nsid \<Longrightarrow>
   sharedRateLimiters (fold (setup_limit nsid) ils s) name = sharedRateLimiters s name"
  by (induction ils arbitrary: s) (simp_all add: setup_limit_shared_other)

lemma enumerate_split:
  "List.enumerate 0 (pre @ x # post)
   = List.enumerate 0 pre @ (length pre, x) # List.enumerate (Suc (length pre)) post"
  by (simp add: enumerate_append_eq)

lemma dropped_in_list:
  assumes absent: "sharedRateLimiters s name = None" and other: "name \<noteq> nsid"
  shows "fold (setup_limit nsid)
           (List.enumerate 0 (pre @ SharedRateLimitOpts name calcKey calcPoints # post)) s
         = fold (setup_limit nsid)
           (List.enumerate 0 pre @ List.enumerate (Suc (length pre)) post) s"
proof -
  let ?s = "fold (setup_limit nsid) (List.enumerate 0 pre) s"
  from absent other have "sharedRateLimiters ?s name = None"
    by (simp add: fold_setup_limit_shared_other)
  then have "setup_limit nsid (length pre, SharedRateLimitOpts name calcKey calcPoints) ?s = ?s"
    by (rule dropped_turn)
  then show ?thesis by (simp add: enumerate_split)
qed

section \<open>The lists of consume functions\<close>

lemma fns_shared_update [simp]:
  "basic_fns (s\<lparr>sharedRateLimiters := x\<rparr>) nsid = basic_fns s nsid"
  "param_fns (s\<lparr>sharedRateLimiters := x\<rparr>) nsid = param_fns s nsid"
  by (simp_all add: basic_fns_def param_fns_def)




section \<open>The shape of a run\<close>








section \<open>Global limiters in the lists and in a run\<close>





lemma createHandler_fns [simp]:
  "rh_basicRlFns (createHandler s nsid def config) = basic_fns s nsid"
  "rh_paramRlFns (createHandler s nsid def config) = param_fns s nsid"
  "rh_routeCfg (createHandler s nsid def config) = config"
  by (simp_all add: createHandler_def basic_fns_def param_fns_def)


lemma global_events_append [simp]:
  "global_events (xs @ ys) = global_events xs @ global_events ys"
  by (simp add: global_events_def)


















section \<open>Splitting at a separator\<close>

lemma split_on_none: "sep \<notin> set b \<Longrightarrow> split_on sep b = [b]"
  by (induction b) auto

lemma split_on_two:
  "sep \<notin> set a \<Longrightarrow> sep \<notin> set b \<Longrightarrow> split_on sep (a @ sep # b) = [a, b]"
  by (induction a) (auto simp: split_on_none)

lemma split_on_nonempty: "split_on sep s \<noteq> []"
  by (induction s) (auto split: list.splits)

lemma split_on_single: "split_on sep s = [a] \<Longrightarrow> s = a \<and> sep \<notin> set a"
  by (induction s arbitrary: a) (auto split: list.splits if_splits simp: split_on_nonempty)

lemma split_on_pair:
  "split_on sep s = [a, b] \<Longrightarrow> s = a @ sep # b \<and> sep \<notin> set a \<and> sep \<notin> set b"
proof (induction s arbitrary: a)
  case Nil
  then show ?case by simp
next
  case (Cons c cs)
  show ?case
  proof (cases "c = sep")
    case True
    with Cons.prems have "a = []" and "split_on sep cs = [b]" by auto
    with True split_on_single [of sep cs b] show ?thesis by auto
  next
    case False
    with Cons.prems obtain p where "split_on sep cs = [p, b]" and "a = c # p"
      by (auto split: list.splits)
    with False Cons.IH [of p] show ?thesis by auto
  qed
qed

section \<open>The frame of one item\<close>

lemma item_frame_typed:
  "declared_type v = Some ty \<Longrightarrow>
   item_frame nsid (ValueItem v) =
     MessageFrame (strip_type v)
       (Some (case split_on CHR ''#'' ty of
                [a, b] \<Rightarrow> if a = [] \<or> a = nsid then CHR ''#'' # b else ty
              | _ \<Rightarrow> ty))"
  by (auto simp: declared_type_def item_frame_def strip_type_def Let_def
      split: jvalue.splits option.splits list.splits)

lemma item_frame_untyped:
  "declared_type v = None \<Longrightarrow> item_frame nsid (ValueItem v) = MessageFrame v None"
  by (auto simp: declared_type_def item_frame_def split: jvalue.splits option.splits)

lemma strip_type_no_field: "\<not> has_type_field (strip_type v)"
  by (cases v) (auto simp: strip_type_def has_type_field_def)

lemma item_frame_local:
  assumes ty: "declared_type v = Some ty"
    and ns: "in_namespace nsid ty name"
    and nsid: "CHR ''#'' \<notin> set nsid"
  shows "item_frame nsid (ValueItem v) = MessageFrame (strip_type v) (Some (CHR ''#'' # name))"
proof -
  from ns have name: "CHR ''#'' \<notin> set name" by (simp add: in_namespace_def)
  from ns consider "ty = [] @ CHR ''#'' # name" | "ty = nsid @ CHR ''#'' # name"
    by (auto simp: in_namespace_def)
  then show ?thesis
  proof cases
    case 1
    with name have "split_on CHR ''#'' ty = [[], name]"
      using split_on_two [of "CHR ''#''" "[]" name] by simp
    with ty show ?thesis by (simp add: item_frame_typed)
  next
    case 2
    with name nsid have "split_on CHR ''#'' ty = [nsid, name]"
      using split_on_two [of "CHR ''#''" nsid name] by simp
    with ty show ?thesis by (simp add: item_frame_typed)
  qed
qed

lemma item_frame_foreign:
  assumes ty: "declared_type v = Some ty"
    and out: "\<forall>name. \<not> in_namespace nsid ty name"
  shows "item_frame nsid (ValueItem v) = MessageFrame (strip_type v) (Some ty)"
proof (cases "\<exists>a b. split_on CHR ''#'' ty = [a, b] \<and> (a = [] \<or> a = nsid)")
  case True
  then obtain a b where sp: "split_on CHR ''#'' ty = [a, b]" and a: "a = [] \<or> a = nsid"
    by blast
  from split_on_pair [OF sp] a have "in_namespace nsid ty b"
    by (auto simp: in_namespace_def)
  with out show ?thesis by blast
next
  case False
  then have "(case split_on CHR ''#'' ty of
                [a, b] \<Rightarrow> if a = [] \<or> a = nsid then CHR ''#'' # b else ty
              | _ \<Rightarrow> ty) = ty"
    by (auto split: list.splits)
  with ty show ?thesis by (simp add: item_frame_typed)
qed

text \<open>
  Claim C6. Every item a subscription handler yields becomes one frame: an item that is
  already a \<^verbatim>\<open>Frame\<close> is forwarded unchanged; a map whose \<^verbatim>\<open>$type\<close> lies in the
  subscription's own namespace (\<^verbatim>\<open>nsid#name\<close> or a bare \<^verbatim>\<open>#name\<close>) becomes a message
  frame tagged with the short form \<^verbatim>\<open>#name\<close>, its payload without the \<^verbatim>\<open>$type\<close> field; a
  map whose \<^verbatim>\<open>$type\<close> lies outside that namespace keeps the type in full, as the tag of
  its frame; every other item (not a map, or without a string \<^verbatim>\<open>$type\<close>) becomes a message
  frame with no type tag and the item itself as payload.
\<close>

theorem item_frame_normalises:
  "item_frame nsid (FrameItem f) = f
   \<and> (declared_type v = Some ty \<and> in_namespace nsid ty name \<and> CHR ''#'' \<notin> set nsid \<longrightarrow>
        item_frame nsid (ValueItem v) = MessageFrame (strip_type v) (Some (CHR ''#'' # name))
        \<and> \<not> has_type_field (strip_type v))
   \<and> (declared_type v = Some ty \<and> (\<forall>name. \<not> in_namespace nsid ty name) \<longrightarrow>
        item_frame nsid (ValueItem v) = MessageFrame (strip_type v) (Some ty))
   \<and> (declared_type v = None \<longrightarrow> item_frame nsid (ValueItem v) = MessageFrame v None)"
proof -
  have "item_frame nsid (FrameItem f) = f" by (simp add: item_frame_def)
  then show ?thesis
    using item_frame_local item_frame_foreign item_frame_untyped strip_type_no_field
    by blast
qed

theorem item_frame_normalises_witness:
  "item_frame ''io.example.streamTwo''
     (ValueItem (JObj [(''$type'', JStr ''io.example.streamTwo#odd''), (''count'', JNum 1)]))
     = MessageFrame (JObj [(''count'', JNum 1)]) (Some ''#odd'')
   \<and> item_frame ''io.example.streamTwo''
     (ValueItem (JObj [(''$type'', JStr ''#even''), (''count'', JNum 0)]))
     = MessageFrame (JObj [(''count'', JNum 0)]) (Some ''#even'')
   \<and> item_frame ''io.example.streamTwo''
     (ValueItem (JObj [(''$type'', JStr ''io.example.otherNsid#done'')]))
     = MessageFrame (JObj []) (Some ''io.example.otherNsid#done'')
   \<and> item_frame ''io.example.streamTwo'' (ValueItem (JObj [(''count'', JNum 3)]))
     = MessageFrame (JObj [(''count'', JNum 3)]) None"
proof -
  let ?n = "''io.example.streamTwo''"
  let ?odd = "JObj [(''$type'', JStr ''io.example.streamTwo#odd''), (''count'', JNum 1)]"
  let ?even = "JObj [(''$type'', JStr ''#even''), (''count'', JNum 0)]"
  let ?done = "JObj [(''$type'', JStr ''io.example.otherNsid#done'')]"
  let ?plain = "JObj [(''count'', JNum 3)]"
  have n: "CHR ''#'' \<notin> set ?n" by simp
  have odd: "declared_type ?odd = Some ''io.example.streamTwo#odd''"
    and odd_ns: "in_namespace ?n ''io.example.streamTwo#odd'' ''odd''"
    by (simp_all add: declared_type_def in_namespace_def)
  have even: "declared_type ?even = Some ''#even''"
    and even_ns: "in_namespace ?n ''#even'' ''even''"
    by (simp_all add: declared_type_def in_namespace_def)
  have fin: "declared_type ?done = Some ''io.example.otherNsid#done''"
    and fin_ns: "\<forall>name. \<not> in_namespace ?n ''io.example.otherNsid#done'' name"
    by (simp_all add: declared_type_def in_namespace_def)
  have plain: "declared_type ?plain = None"
    by (simp add: declared_type_def)
  from item_frame_normalises [of ?n "MessageFrame JNull None" ?odd _ "''odd''"] odd odd_ns n
  have 1: "item_frame ?n (ValueItem ?odd) = MessageFrame (strip_type ?odd) (Some ''#odd'')"
    by simp
  from item_frame_normalises [of ?n "MessageFrame JNull None" ?even _ "''even''"] even even_ns n
  have 2: "item_frame ?n (ValueItem ?even) = MessageFrame (strip_type ?even) (Some ''#even'')"
    by simp
  from item_frame_normalises [of ?n "MessageFrame JNull None" ?done "''io.example.otherNsid#done''"] fin fin_ns
  have 3: "item_frame ?n (ValueItem ?done)
             = MessageFrame (strip_type ?done) (Some ''io.example.otherNsid#done'')"
    by simp
  from item_frame_normalises [of ?n "MessageFrame JNull None" ?plain] plain
  have 4: "item_frame ?n (ValueItem ?plain) = MessageFrame ?plain None"
    by simp
  from 1 2 3 4 show ?thesis by (simp add: strip_type_def)
qed

section \<open>The frames of a subscription connection\<close>












section \<open>Declared errors and raised errors\<close>

lemma with_handler_fields [simp]:
  "rh_nsid (with_handler f h) = rh_nsid h"
  "rh_def (with_handler f h) = rh_def h"
  "rh_validateResOutput (with_handler f h) = rh_validateResOutput h"
  "rh_basicRlFns (with_handler f h) = rh_basicRlFns h"
  "rh_paramRlFns (with_handler f h) = rh_paramRlFns h"
  "hc_handler (rh_routeCfg (with_handler f h)) = f"
  by (simp_all add: with_handler_def)

lemma respond_with_handler: "respond e (with_handler f h) outp = respond e h outp"
  by (cases outp) (simp_all add: respond_def)

lemma invoke_raises_instead:
  "settle (invoke_handler e (with_handler (raises_instead f) h) c)
   = settle (invoke_handler e (with_handler f h) c)"
  by (auto simp: settle_def invoke_handler_def raises_instead_def respond_with_handler
      respond_def finish_def catch_next_def
      split: handler_result.splits handler_output.splits prod.splits)


lemma param_stage_raises_instead:
  "settle3 (param_stage e (with_handler (raises_instead f) h) c st)
   = settle3 (param_stage e (with_handler f h) c st)"
  using invoke_raises_instead [of e f h c]
  by (auto simp: settle3_def settle_def param_stage_def split: prod.splits sum.splits option.splits)

lemma validate_stage_raises_instead:
  "settle3 (validate_stage e (with_handler (raises_instead f) h) req au st)
   = settle3 (validate_stage e (with_handler f h) req au st)"
proof (cases "assertValidXrpcParams e (rh_nsid h) (decodeQueryParams e (rh_def h) (req_query req))")
  case (Inl msg)
  then show ?thesis by (simp add: validate_stage_def)
next
  case (Inr ps)
  show ?thesis
  proof (cases "validateInput e (rh_nsid h) (rh_def h) req")
    case (Inl err)
    with Inr show ?thesis by (simp add: validate_stage_def)
  next
    case inp: (Inr inp)
    from param_stage_raises_instead
           [of e f h "\<lparr>ctx_req = req, ctx_auth = au, ctx_params = ps, ctx_input = inp\<rparr>" st]
    show ?thesis using Inr inp
      by (auto simp: validate_stage_def settle3_def split: prod.splits)
  qed
qed

lemma try_stage_raises_instead:
  "settle3 (try_stage e (with_handler (raises_instead f) h) req au st)
   = settle3 (try_stage e (with_handler f h) req au st)"
proof (cases "rh_basicRlFns h = []")
  case True
  then show ?thesis by (simp add: try_stage_def validate_stage_raises_instead)
next
  case False
  obtain r evs st' where cm: "consumeMany (bare_ctx req) (rh_basicRlFns h) st = (r, evs, st')"
    by (cases "consumeMany (bare_ctx req) (rh_basicRlFns h) st") auto
  show ?thesis
  proof (cases "r = Inr None")
    case True
    from validate_stage_raises_instead [of e f h req au st']
    show ?thesis using False cm True
      by (auto simp: try_stage_def settle3_def split: prod.splits)
  next
    case no: False
    with False cm show ?thesis
      by (auto simp: try_stage_def settle3_def split: sum.splits option.splits)
  qed
qed

lemma run_handler_raises_instead:
  "run_handler e (with_handler (raises_instead f) h) req au st
   = run_handler e (with_handler f h) req au st"
  using try_stage_raises_instead [of e f h req au st]
  by (simp add: run_handler_def settle3_def)


lemma setupRouteRateLimits_handler:
  "setupRouteRateLimits nsid (config\<lparr>hc_handler := g\<rparr>) s = setupRouteRateLimits nsid config s"
  by (simp add: setupRouteRateLimits_def)

lemma createHandler_handler:
  "createHandler s nsid def (config\<lparr>hc_handler := g\<rparr>)
   = with_handler g (createHandler s nsid def config)"
  by (simp add: createHandler_def with_handler_def)

lemma run_route_raises_instead:
  "run_route e (rt\<lparr>rt_handler := with_handler (raises_instead f) h\<rparr>) req st
   = run_route e (rt\<lparr>rt_handler := with_handler f h\<rparr>) req st"
  by (simp add: run_route_def run_handler_raises_instead Let_def
      cong: option.case_cong sum.case_cong if_cong)

lemma handle_request_raises_instead:
  "handle_request e (addRoute nsid def (config\<lparr>hc_handler := raises_instead f\<rparr>) s) req st
   = handle_request e (addRoute nsid def (config\<lparr>hc_handler := f\<rparr>) s) req st"
proof -
  let ?s = "setupRouteRateLimits nsid config s"
  let ?h = "createHandler ?s nsid def config"
  define rt where "rt = \<lparr>rt_verb = (if lex_type def = Procedure then RoutePost else RouteGet),
              rt_nsid = nsid, rt_auth = hc_auth config, rt_handler = ?h\<rparr>"
  have routes: "routes (addRoute nsid def (config\<lparr>hc_handler := g\<rparr>) s)
                 = routes ?s @ [rt\<lparr>rt_handler := with_handler g ?h\<rparr>]" for g
    by (simp add: rt_def addRoute_def Let_def setupRouteRateLimits_handler createHandler_handler)
  have matches: "route_matches (rt\<lparr>rt_handler := with_handler g ?h\<rparr>) req = route_matches rt req"
    for g
    by (simp add: route_matches_def)
  have others: "catchall (addRoute nsid def (config\<lparr>hc_handler := g\<rparr>) s) req st
                 = catchall ?s req st" for g
    by (rule catchall_cong) (simp_all add: addRoute_def Let_def setupRouteRateLimits_handler)
  show ?thesis
    by (rule handle_request_last_route [OF routes routes])
      (simp_all add: matches others run_route_raises_instead)
qed

lemma declared_error_wire:
  assumes "f c = Returns (OutputError he)"
  shows "(case invoke_handler e (with_handler f h) c of (fl, evs) \<Rightarrow> deliver (finish fl))
         = WireError (he_status he) (payload (fromHandlerError he))"
  using assms
  by (simp add: invoke_handler_def respond_def finish_def deliver_def errorMiddleware_def
      fromHandlerError_def)

lemma raised_error_wire:
  assumes "f c = Throws (ThrownXRPC (fromHandlerError he))"
  shows "(case invoke_handler e (with_handler f h) c of (fl, evs) \<Rightarrow> deliver (finish fl))
         = WireError (he_status he) (payload (fromHandlerError he))"
  using assms
  by (simp add: invoke_handler_def finish_def catch_next_def deliver_def errorMiddleware_def
      fromHandlerError_def)

text \<open>
  Claim C9. For every handler and every declared error it returns, the request has the same
  outcome as with the handler that raises the \<^verbatim>\<open>XRPCError\<close> of the same status, error
  name and message instead: the same wire error (status classification, error name and
  message, as \<^verbatim>\<open>errorMiddleware\<close> writes them), after the same steps and with the same
  counters. This holds for the whole request on a server where the method was registered
  with either handler, and for the handler of \<^verbatim>\<open>createHandler\<close> alone.
\<close>

theorem declared_error_same_wire:
  "handle_request e (addRoute nsid def (config\<lparr>hc_handler := raises_instead f\<rparr>) s) req st
     = handle_request e (addRoute nsid def (config\<lparr>hc_handler := f\<rparr>) s) req st
   \<and> run_handler e (with_handler (raises_instead f) h) req au st
     = run_handler e (with_handler f h) req au st
   \<and> (f c = Returns (OutputError he) \<longrightarrow>
        (case invoke_handler e (with_handler f h) c of (fl, evs) \<Rightarrow> deliver (finish fl))
          = WireError (he_status he) (payload (fromHandlerError he))
        \<and> (case invoke_handler e (with_handler (raises_instead f) h) c of
              (fl, evs) \<Rightarrow> deliver (finish fl))
          = WireError (he_status he) (payload (fromHandlerError he)))"
proof -
  have "raises_instead f c = Throws (ThrownXRPC (fromHandlerError he))"
    if "f c = Returns (OutputError he)"
    using that by (simp add: raises_instead_def)
  then show ?thesis
    using handle_request_raises_instead
        [where e = e and nsid = nsid and def = def and config = config and f = f and s = s
           and req = req and st = st]
      run_handler_raises_instead [where e = e and f = f and h = h and req = req and au = au
           and st = st]
      declared_error_wire [where f = f and c = c and he = he and e = e and h = h]
      raised_error_wire [where f = "raises_instead f" and c = c and he = he and e = e and h = h]
    by blast
qed

lemma declines_evaluates:
  "handle_request env_ok
     (addRoute ''io.example.ping'' (def_of Query) (plain_config declines)
        (createServer lex_example no_options))
     (request_of ''GET'' ''io.example.ping'') empty_store
   = (WireError InvalidRequest (ErrorPayload (Some ''BadThing'') (Some ''nope'')),
      [EvDecodeParams, EvAssertParams True, EvValidateInput True, EvHandler], empty_store)"
  by (simp add: pipeline_defs registration_defs example_defs declines_def payload_def
      fromHandlerError_def Let_def enumerate_eq_zip)

theorem declared_error_same_wire_witness:
  "handle_request env_ok
     (addRoute ''io.example.ping'' (def_of Query)
        ((plain_config declines)\<lparr>hc_handler := raises_instead declines\<rparr>)
        (createServer lex_example no_options))
     (request_of ''GET'' ''io.example.ping'') empty_store
   = (WireError InvalidRequest (ErrorPayload (Some ''BadThing'') (Some ''nope'')),
      [EvDecodeParams, EvAssertParams True, EvValidateInput True, EvHandler], empty_store)
   \<and> (case invoke_handler env_ok
             (with_handler (raises_instead declines)
                (createHandler (createServer lex_example no_options) ''io.example.ping''
                   (def_of Query) (plain_config declines)))
             (bare_ctx (request_of ''GET'' ''io.example.ping'')) of
         (fl, evs) \<Rightarrow> deliver (finish fl))
     = WireError InvalidRequest (ErrorPayload (Some ''BadThing'') (Some ''nope''))"
proof -
  let ?he = "HandlerError InvalidRequest (Some ''BadThing'') (Some ''nope'')"
  let ?c = "bare_ctx (request_of ''GET'' ''io.example.ping'')"
  note same = declared_error_same_wire
    [where e = env_ok and nsid = "''io.example.ping''" and def = "def_of Query"
       and config = "plain_config declines" and f = declines
       and s = "createServer lex_example no_options"
       and req = "request_of ''GET'' ''io.example.ping''" and st = empty_store
       and c = ?c and he = ?he
       and h = "createHandler (createServer lex_example no_options) ''io.example.ping''
                  (def_of Query) (plain_config declines)"]
  have returns: "declines ?c = Returns (OutputError ?he)"
    by (simp add: declines_def)
  have unchanged: "(plain_config declines)\<lparr>hc_handler := declines\<rparr> = plain_config declines"
    by (simp add: plain_config_def)
  have shape: "payload (fromHandlerError ?he) = ErrorPayload (Some ''BadThing'') (Some ''nope'')"
    by (simp add: payload_def fromHandlerError_def)
  from same returns show ?thesis
    by (simp add: unchanged declines_evaluates shape)
qed

section \<open>Output validation\<close>










section \<open>Requests with the wrong verb\<close>








lemma ping_server_post:
  "handle_request env_ok ping_server (request_of ''POST'' ''io.example.ping'') empty_store
   = (WireError InvalidRequest
        (ErrorPayload (Some ''InvalidRequest'')
           (Some ''Incorrect HTTP method (POST) expected GET'')),
      [EvGetDef], empty_store)"
  by (simp add: ping_server_def pipeline_defs registration_defs example_defs
      payload_def InvalidRequestError_def Let_def enumerate_eq_zip)




section \<open>Registering an id twice\<close>

lemma reregistered_route_unused:
  assumes b: "built s" and r: "registered s nsid" and a: "addMethod nsid configOrFn s = Inr s'"
  shows "handle_request e s' req st = handle_request e s req st"
proof -
  from a obtain def config where d: "lex s nsid = Some def"
    and s': "s' = addRoute nsid def config s"
    by (rule addMethod_Inr)
  let ?P = "\<lambda>rt. route_matches rt req"
  let ?new = "\<lparr>rt_verb = verb_of def, rt_nsid = nsid, rt_auth = hc_auth config,
          rt_handler = createHandler (setupRouteRateLimits nsid config s) nsid def config\<rparr>"
  from r obtain rt0 where rt0: "rt0 \<in> set (routes s)" and id: "rt_nsid rt0 = nsid"
    by (auto simp: registered_def list_ex_iff)
  from built_route_verbs [OF b rt0] id d have v: "rt_verb rt0 = verb_of def" by simp
  have "?P rt0" if "?P ?new"
    using that id v by (simp add: route_matches_def)
  with rt0 have "find ?P (routes s) \<noteq> None" if "?P ?new"
    using that by (auto simp: find_None_iff)
  then have f: "find ?P (routes s') = find ?P (routes s)"
    by (auto simp: s' find_snoc split: option.splits)
  have c: "catchall s' req st = catchall s req st"
    by (rule catchall_cong) (simp_all add: s')
  show ?thesis unfolding handle_request_def f c ..
qed

lemma reregistered_subscription_wins:
  assumes a: "addStreamMethod nsid (StreamConfig config) s = Inr s'"
    and d: "lex s nsid = Some def" and id: "req_methodId req = nsid"
  shows "upgrade e s' req = Some (stream_frames e nsid def config req)"
  using assms
  by (auto simp: addStreamMethod_def addSubscription_def upgrade_def split: if_splits)

lemma twice_server_get:
  "handle_request env_ok twice_server (request_of ''GET'' ''io.example.ping'') empty_store
   = (Responded (Reply 200 (Some ''application/json'') []
        (SentJson (BodyValue (JObj [(''hello'', JStr ''world'')])))),
      [EvDecodeParams, EvAssertParams True, EvValidateInput True, EvHandler,
       EvValidateOutput True], empty_store)"
  by (simp add: twice_server_def ping_server_def pipeline_defs registration_defs example_defs
      greets_def declines_def Let_def enumerate_eq_zip)

lemma declining_server_get:
  "handle_request env_ok declining_server (request_of ''GET'' ''io.example.ping'') empty_store
   = (WireError InvalidRequest (ErrorPayload (Some ''BadThing'') (Some ''nope'')),
      [EvDecodeParams, EvAssertParams True, EvValidateInput True, EvHandler], empty_store)"
  using declines_evaluates by (simp add: declining_server_def)

lemma stream_twice_upgrade:
  "upgrade env_ok stream_twice_server (request_of ''GET'' ''io.example.stream'')
   = Some [MessageFrame (JObj [(''count'', JNum 2)]) None,
        MessageFrame (JObj [(''count'', JNum 1)]) None]"
  by (simp add: upgrade_def stream_twice_server_def stream_server_def addSubscription_def
      createServer_def stream_frames_def stream_try_def ending_stream_def env_ok_def
      request_of_def two_items_def item_frame_def)

text \<open>
  Claim C3, as amended. For a subscription method, registering a handler configuration under
  an id overwrites what was registered under it (last write wins): every later connection
  to the id is served by the handler registered last. For a query or procedure method of a
  built server, a second registration under a registered id does not replace the first:
  the route added first keeps serving the requests to that id, and every request is handled
  exactly as it was before the second registration.
\<close>

theorem reregistration:
  "(built s \<and> registered s nsid \<and> addMethod nsid configOrFn s = Inr s' \<longrightarrow>
      handle_request e s' req st = handle_request e s req st)
   \<and> (addStreamMethod nsid (StreamConfig config) s = Inr s'' \<and> lex s nsid = Some def
       \<and> req_methodId req = nsid \<longrightarrow>
      upgrade e s'' req = Some (stream_frames e nsid def config req))"
  using reregistered_route_unused [of s nsid configOrFn s' e req st]
    reregistered_subscription_wins [of nsid config s s'' def req e]
  by blast

lemma addMethod_twice_server:
  "addMethod ''io.example.ping'' (Config (plain_config declines)) ping_server = Inr twice_server"
  by (simp add: addMethod_def twice_server_def ping_server_def lex_example_def def_of_def
      createServer_def)

lemma addMethod_ping_server:
  "addMethod ''io.example.ping'' (Config (plain_config greets))
     (createServer lex_example no_options) = Inr ping_server"
  by (simp add: addMethod_def ping_server_def lex_example_def def_of_def createServer_def)

theorem reregistration_witness:
  "built ping_server
   \<and> registered ping_server ''io.example.ping''
   \<and> addMethod ''io.example.ping'' (Config (plain_config declines)) ping_server = Inr twice_server
   \<and> handle_request env_ok twice_server (request_of ''GET'' ''io.example.ping'') empty_store
     = handle_request env_ok ping_server (request_of ''GET'' ''io.example.ping'') empty_store
   \<and> addStreamMethod ''io.example.stream'' (StreamConfig ending_stream) stream_server
     = Inr stream_twice_server
   \<and> upgrade env_ok stream_twice_server (request_of ''GET'' ''io.example.stream'')
     = Some [MessageFrame (JObj [(''count'', JNum 2)]) None,
          MessageFrame (JObj [(''count'', JNum 1)]) None]"
proof -
  let ?req = "request_of ''GET'' ''io.example.stream''"
  have r: "registered ping_server ''io.example.ping''"
    by (simp add: registered_def ping_server_def)
  have st: "addStreamMethod ''io.example.stream'' (StreamConfig ending_stream) stream_server
     = Inr stream_twice_server"
    by (simp add: addStreamMethod_def stream_twice_server_def stream_server_def
        addSubscription_def createServer_def lex_example_def def_of_def)
  have d: "lex stream_server ''io.example.stream'' = Some (def_of Subscription)"
    by (simp add: stream_server_def createServer_def lex_example_def)
  have id: "req_methodId ?req = ''io.example.stream''"
    by (simp add: request_of_def)
  note both = reregistration
    [where s = ping_server and nsid = "''io.example.ping''"
       and configOrFn = "Config (plain_config declines)" and s' = twice_server
       and e = env_ok and req = "request_of ''GET'' ''io.example.ping''" and st = empty_store]
  from both built_ping_server r addMethod_twice_server
  have 1: "handle_request env_ok twice_server (request_of ''GET'' ''io.example.ping'') empty_store
     = handle_request env_ok ping_server (request_of ''GET'' ''io.example.ping'') empty_store"
    by blast
  from reregistration
    [where nsid = "''io.example.stream''" and config = ending_stream and s = stream_server
       and s'' = stream_twice_server and def = "def_of Subscription" and req = ?req
       and e = env_ok] st d id
  have "upgrade env_ok stream_twice_server ?req
        = Some (stream_frames env_ok ''io.example.stream'' (def_of Subscription)
                  ending_stream ?req)"
    by blast
  then have 2: "upgrade env_ok stream_twice_server ?req
     = Some [MessageFrame (JObj [(''count'', JNum 2)]) None,
          MessageFrame (JObj [(''count'', JNum 1)]) None]"
    by (simp add: stream_twice_upgrade)
  from built_ping_server r addMethod_twice_server 1 st 2 show ?thesis by blast
qed

text \<open>
  Claim C3 as it is written fails for a query: \<^verbatim>\<open>io.example.ping\<close> is registered with a
  handler that greets and then again with a handler that declines. A request to the id is
  still answered by the first handler (status 200), where the second handler, registered
  alone, answers with its declared error.
\<close>

theorem reregistration_counterexample:
  "addMethod ''io.example.ping'' (Config (plain_config greets))
       (createServer lex_example no_options) = Inr ping_server
   \<and> addMethod ''io.example.ping'' (Config (plain_config declines)) ping_server = Inr twice_server
   \<and> fst (handle_request env_ok twice_server (request_of ''GET'' ''io.example.ping'')
        empty_store)
     = Responded (Reply 200 (Some ''application/json'') []
         (SentJson (BodyValue (JObj [(''hello'', JStr ''world'')]))))
   \<and> fst (handle_request env_ok declining_server (request_of ''GET'' ''io.example.ping'')
        empty_store)
     = WireError InvalidRequest (ErrorPayload (Some ''BadThing'') (Some ''nope''))"
  by (simp add: addMethod_ping_server addMethod_twice_server twice_server_get
      declining_server_get)

section \<open>Shared specs that name no limiter\<close>

lemma limits_cfg_with_limits [simp]: "limits_cfg (with_limits limits config) = limits"
  by (simp add: limits_cfg_def with_limits_def limits_of_def)

lemma with_limits_fields [simp]:
  "hc_handler (with_limits limits config) = hc_handler config"
  "hc_auth (with_limits limits config) = hc_auth config"
  by (simp_all add: with_limits_def)


















section \<open>Global rate limits\<close>










section \<open>Per-method rate limits\<close>

lemma budget_server_ping:
  "handle_request env_ok budget_server (request_of ''GET'' ''io.example.ping'') empty_store
   = (Responded (Reply 200 (Some ''application/json'') []
        (SentJson (BodyValue (JObj [(''hello'', JStr ''world'')])))),
      [EvConsume (RouteLimit ''io.example.ping'' 0), EvDecodeParams, EvAssertParams True,
       EvValidateInput True, EvHandler, EvValidateOutput True],
      empty_store(''nsid-0:10.0.0.1'' := 1))"
  by (simp add: budget_server_def one_a_minute_def limited_options_def store_limiter_def
      with_limits_def pipeline_defs registration_defs example_defs greets_def Let_def
      enumerate_eq_zip show_nat_digit digit_char_def)

lemma budget_server_post_fresh:
  "handle_request env_ok budget_server (request_of ''POST'' ''io.example.post'') empty_store
   = (Responded (Reply 200 (Some ''application/json'') []
        (SentJson (BodyValue (JObj [(''hello'', JStr ''world'')])))),
      [EvParseBody, EvConsume (RouteLimit ''io.example.post'' 0), EvDecodeParams,
       EvAssertParams True, EvValidateInput True, EvHandler, EvValidateOutput True],
      empty_store(''nsid-0:10.0.0.1'' := 1))"
  by (simp add: budget_server_def one_a_minute_def limited_options_def store_limiter_def
      with_limits_def pipeline_defs registration_defs example_defs greets_def Let_def
      enumerate_eq_zip show_nat_digit digit_char_def)

lemma budget_server_post_after_ping:
  "handle_request env_ok budget_server (request_of ''POST'' ''io.example.post'')
     (empty_store(''nsid-0:10.0.0.1'' := 1))
   = (WireError RateLimitExceeded
        (ErrorPayload (Some ''RateLimitExceeded'') (Some ''Rate Limit Exceeded'')),
      [EvParseBody, EvConsume (RouteLimit ''io.example.post'' 0)],
      empty_store(''nsid-0:10.0.0.1'' := 1))"
  by (simp add: budget_server_def one_a_minute_def limited_options_def store_limiter_def
      with_limits_def pipeline_defs registration_defs example_defs greets_def Let_def
      enumerate_eq_zip show_nat_digit digit_char_def payload_def RateLimitExceededError_def)

text \<open>
  Claim C5 against the code. Two distinct methods, \<^verbatim>\<open>io.example.ping\<close> and
  \<^verbatim>\<open>io.example.post\<close>, are each registered with a per-method limit of their own, of one point
  a minute. Line 487 creates the limiter of the spec at index \<open>i\<close> with the key prefix
  \<^verbatim>\<open>nsid-i\<close>, the letters "nsid" and not the id of the method, so both limiters are created
  with the same options and debit the same counter of the store,
  \<^verbatim>\<open>nsid-0:10.0.0.1\<close>. On a fresh store each request is served; after one request to
  \<^verbatim>\<open>io.example.ping\<close> the budget of \<^verbatim>\<open>io.example.post\<close> is used up, and the same caller's
  first request to it is rejected with RateLimitExceeded.
\<close>

theorem per_method_counters_collide:
  "fst (handle_request env_ok budget_server (request_of ''POST'' ''io.example.post'')
         empty_store)
   = Responded (Reply 200 (Some ''application/json'') []
        (SentJson (BodyValue (JObj [(''hello'', JStr ''world'')]))))
   \<and> snd (snd (handle_request env_ok budget_server (request_of ''GET'' ''io.example.ping'')
         empty_store))
     = empty_store(''nsid-0:10.0.0.1'' := 1)
   \<and> handle_request env_ok budget_server (request_of ''POST'' ''io.example.post'')
       (snd (snd (handle_request env_ok budget_server
          (request_of ''GET'' ''io.example.ping'') empty_store)))
     = (WireError RateLimitExceeded
          (ErrorPayload (Some ''RateLimitExceeded'') (Some ''Rate Limit Exceeded'')),
        [EvParseBody, EvConsume (RouteLimit ''io.example.post'' 0)],
        empty_store(''nsid-0:10.0.0.1'' := 1))"
  by (simp only: budget_server_ping budget_server_post_fresh budget_server_post_after_ping
      fst_conv snd_conv simp_thms)

section \<open>Basic and parametric rate limits\<close>













lemma consume_events:
  "list_all (consumes fns) (map (EvConsume \<circ> cf_tag) (take n fns))"
  by (auto simp: list_all_iff consumes_def dest: in_set_takeD)




lemma consume_not_check: "\<not> is_request_check (EvConsume t)"
  by simp

























end
